theory Spec2Isabelle
  imports Complex_Main "HOL-Library.Word"
begin

unbundle bit_operations_syntax

section \<open>The cascaded controller of Firmware/MotorControl/controller.cpp\<close>

text \<open>
  The embedding follows \<^verbatim>\<open>Controller::update\<close> block by block. Each block of the C++
  function is one HOL function below, and \<open>update\<close> composes them in the source's order.

  Numbers: a C++ \<^verbatim>\<open>float\<close> is modelled as a \<^typ>\<open>real\<close>, with exact arithmetic (no
  rounding of sums, products and quotients, no infinity), with two exceptions where the
  float matters to what the code does:
  \<^item> the current path. The current setpoint, the current accumulator \<^verbatim>\<open>Iq\<close> and the
    current written are of type \<open>cfloat\<close>, a real number or NaN: a sum with NaN is NaN
    and every comparison with NaN is false, so a NaN accumulator passes both limit tests;
  \<^item> the conversions of integers to \<^verbatim>\<open>float\<close> in the cogging lookup, which round to 24
    significant bits (to nearest, ties to even): \<open>int_to_float\<close> and \<open>uint_to_float\<close>.
    The other two conversions (the counts per revolution in the position loop, the loop
    count delta of the trajectory) are taken as exact.
  \<^verbatim>\<open>uint32_t\<close> and \<^verbatim>\<open>size_t\<close> values are \<^typ>\<open>32 word\<close> (the firmware targets a 32 bit
  core); the encoder's \<^verbatim>\<open>int32_t\<close> counts are only ever converted to \<^verbatim>\<open>float\<close> and are
  modelled as \<^typ>\<open>int\<close>.

  Names: Isabelle reserves identifiers that end in an underscore, so the C++ member
  \<^verbatim>\<open>x_\<close> is the field \<open>x_m\<close>; the local \<^verbatim>\<open>frac\<close> is written \<open>frac'\<close> (\<open>frac\<close> is a
  constant of the library).

  A cycle whose C++ execution leaves this model returns \<open>None\<close>: a float to \<^verbatim>\<open>size_t\<close>
  conversion out of range, a remainder by zero, an array access outside the cogging map,
  or a division by zero (whose float result is not a real number).
\<close>

subsection \<open>Data\<close>

text \<open>
  Modelled from the spec: the declaration of the control mode enum is missing from the
  sources (it lives in a header). The spec gives it as the ordered enum
  CURRENT, VELOCITY, POSITION, TRAJECTORY; \<open>mode_rank\<close> is that order, which the
  source's \<^verbatim>\<open>>=\<close> and \<^verbatim>\<open><\<close> tests on modes compare.
\<close>

datatype Control_mode =
    CTRL_MODE_CURRENT_CONTROL
  | CTRL_MODE_VELOCITY_CONTROL
  | CTRL_MODE_POSITION_CONTROL
  | CTRL_MODE_TRAJECTORY_CONTROL

fun mode_rank :: "Control_mode \<Rightarrow> nat" where
  "mode_rank CTRL_MODE_CURRENT_CONTROL = 0"
| "mode_rank CTRL_MODE_VELOCITY_CONTROL = 1"
| "mode_rank CTRL_MODE_POSITION_CONTROL = 2"
| "mode_rank CTRL_MODE_TRAJECTORY_CONTROL = 3"

text \<open>
  Modelled from the spec: the motor type enum is missing from the sources. The spec gives
  the tag as permanent-magnet or induction; the source only tests for
  \<^verbatim>\<open>MOTOR_TYPE_ACIM\<close>.
\<close>

datatype Motor_type = MOTOR_TYPE_PERMANENT_MAGNET | MOTOR_TYPE_ACIM

text \<open>A float of the current path: a real number or NaN.\<close>

datatype cfloat = NaN | Finite real

text \<open>\<^verbatim>\<open>TrapezoidalTrajectory::Step_t\<close>, the planner's sample.\<close>

record Step_t =
  Y :: real
  Yd :: real
  Ydd :: real

text \<open>\<^verbatim>\<open>Controller::Config_t\<close>: the fields \<^verbatim>\<open>update\<close> reads or writes.\<close>

record Config_t =
  control_mode :: Control_mode
  pos_gain :: real
  vel_gain :: real
  vel_integrator_gain :: real
  vel_limit :: real
  vel_limit_tolerance :: real
  vel_ramp_enable :: bool
  vel_ramp_rate :: real
  setpoints_in_cpr :: bool
  cogmap :: "real list"
  cogmap_size :: "32 word"
  cogmap_integrator_gain :: real
  cogmap_max_current :: real

record Controller =
  config_m :: Config_t
  error_m :: "32 word"
  pos_setpoint_m :: real
  vel_setpoint_m :: real
  current_setpoint_m :: cfloat
  vel_integrator_current_m :: real
  vel_ramp_target_m :: real
  goal_point_m :: real
  traj_start_loop_count_m :: "32 word"
  cogmap_current_m :: real
  cogmap_correction_pwr_m :: real

text \<open>
  What the controller reaches through \<^verbatim>\<open>axis_\<close>, flattened:
  \<^verbatim>\<open>axis_->error_\<close>, \<^verbatim>\<open>axis_->loop_counter_\<close>, the planner \<^verbatim>\<open>axis_->trap_\<close>
  (\<^verbatim>\<open>Tf_\<close>, \<^verbatim>\<open>eval\<close>, \<^verbatim>\<open>config_.A_per_css\<close>), the encoder \<^verbatim>\<open>axis_->encoder_\<close>
  (\<^verbatim>\<open>config_.cpr\<close>, \<^verbatim>\<open>pos_cpr_\<close>, \<^verbatim>\<open>count_in_cpr_\<close>) and the motor \<^verbatim>\<open>axis_->motor_\<close>
  (\<^verbatim>\<open>config_.motor_type\<close>, \<^verbatim>\<open>current_control_.acim_rotor_flux\<close>,
  \<^verbatim>\<open>config_.acim_gain_min_flux\<close>). The planner's \<^verbatim>\<open>eval\<close> and the motor's
  \<^verbatim>\<open>effective_current_lim()\<close> are not in the sources: the first is a function parameter,
  the second the value it returns during the call.
\<close>

record Axis =
  axis_error_m :: "32 word"
  loop_counter_m :: "32 word"
  trap_Tf_m :: real
  trap_eval :: "real \<Rightarrow> Step_t"
  trap_A_per_css :: real
  encoder_cpr :: int
  encoder_pos_cpr_m :: real
  encoder_count_in_cpr_m :: int
  motor_type :: Motor_type
  acim_rotor_flux :: real
  acim_gain_min_flux :: real
  effective_current_lim :: real

text \<open>
  Constants declared in headers that are not in the sources, taken as parameters: the
  cycle period \<^verbatim>\<open>current_meas_period\<close> and the two error flags
  \<^verbatim>\<open>Controller::ERROR_OVERSPEED\<close> and \<^verbatim>\<open>Axis::ERROR_CONTROLLER_FAILED\<close>.
\<close>

record Constants =
  current_meas_period :: real
  ERROR_OVERSPEED :: "32 word"
  ERROR_CONTROLLER_FAILED :: "32 word"

text \<open>
  What one call of \<^verbatim>\<open>update\<close> leaves behind: the returned boolean, the cell behind
  \<^verbatim>\<open>current_setpoint_output\<close> (\<open>None\<close> for a null pointer), the controller and the axis.
\<close>

record Update_result =
  ret :: bool
  output_cell :: "cfloat option"
  controller :: Controller
  axis :: Axis

subsection \<open>Numeric utilities\<close>

text \<open>
  Modelled from the spec: \<^verbatim>\<open>fmodf_pos\<close> is defined in a header that is not in the sources.
  The spec: normalize the value modulo \<open>cpr\<close> into \<open>[0, cpr)\<close>.
\<close>

definition fmodf_pos :: "real \<Rightarrow> real \<Rightarrow> real" where
  "fmodf_pos x y = x - y * of_int \<lfloor>x / y\<rfloor>"

text \<open>
  Modelled from the spec: \<^verbatim>\<open>wrap_pm\<close> is defined in a header that is not in the sources.
  The spec: wrap the error into \<open>[-cpr/2, cpr/2)\<close>, where the source passes the half range
  \<open>0.5 * cpr\<close>.
\<close>

definition wrap_pm :: "real \<Rightarrow> real \<Rightarrow> real" where
  "wrap_pm x pm_range = fmodf_pos (x + pm_range) (2 * pm_range) - pm_range"

text \<open>
  Modelled from the spec: \<^verbatim>\<open>clamp_bidirf\<close> is defined in a header that is not in the
  sources. The spec: a symmetric clamp of the magnitude, to plus or minus the bound.
\<close>

definition clamp_bidirf :: "real \<Rightarrow> real \<Rightarrow> real" where
  "clamp_bidirf x abs_limit =
     (if x > abs_limit then abs_limit else if x < - abs_limit then - abs_limit else x)"

text \<open>\<^verbatim>\<open>std::copysignf\<close> on reals: the magnitude of the first, the sign of the second.\<close>

definition copysignf :: "real \<Rightarrow> real \<Rightarrow> real" where
  "copysignf x y = (if y < 0 then - \<bar>x\<bar> else \<bar>x\<bar>)"

text \<open>
  Float addition and the float comparisons \<^verbatim>\<open>>\<close>, \<^verbatim>\<open><\<close>, \<^verbatim>\<open><=\<close> and \<^verbatim>\<open>fabsf\<close> on the
  current path: NaN is absorbing, and no comparison with NaN holds.
\<close>

fun fadd :: "cfloat \<Rightarrow> cfloat \<Rightarrow> cfloat" where
  "fadd (Finite x) (Finite y) = Finite (x + y)"
| "fadd NaN y = NaN"
| "fadd (Finite x) NaN = NaN"

fun fgt :: "cfloat \<Rightarrow> cfloat \<Rightarrow> bool" where
  "fgt (Finite x) (Finite y) = (x > y)"
| "fgt NaN y = False"
| "fgt (Finite x) NaN = False"

fun flt :: "cfloat \<Rightarrow> cfloat \<Rightarrow> bool" where
  "flt (Finite x) (Finite y) = (x < y)"
| "flt NaN y = False"
| "flt (Finite x) NaN = False"

fun fle :: "cfloat \<Rightarrow> cfloat \<Rightarrow> bool" where
  "fle (Finite x) (Finite y) = (x \<le> y)"
| "fle NaN y = False"
| "fle (Finite x) NaN = False"

fun fabsf :: "cfloat \<Rightarrow> cfloat" where
  "fabsf (Finite x) = Finite \<bar>x\<bar>"
| "fabsf NaN = NaN"

text \<open>
  The conversion of an integer to \<^verbatim>\<open>float\<close>. A float has 24 significant bits: an integer
  below \<open>2 ^ 24\<close> in magnitude is kept, a larger one is rounded to a multiple of
  \<open>2 ^ e\<close>, the nearest one, the even one of two equally near. \<open>float_ulp_exp\<close> is that
  \<open>e\<close> for the magnitudes of 32 bit integers.
\<close>

definition round_shift :: "nat \<Rightarrow> nat \<Rightarrow> nat" where
  "round_shift a e =
     (let q = a div 2 ^ e; r = a mod 2 ^ e
      in (if 2 * r > 2 ^ e \<or> (2 * r = 2 ^ e \<and> odd q) then q + 1 else q) * 2 ^ e)"

definition float_ulp_exp :: "nat \<Rightarrow> nat" where
  "float_ulp_exp a =
     (if a < 2 ^ 24 then 0 else if a < 2 ^ 25 then 1 else if a < 2 ^ 26 then 2
      else if a < 2 ^ 27 then 3 else if a < 2 ^ 28 then 4 else if a < 2 ^ 29 then 5
      else if a < 2 ^ 30 then 6 else if a < 2 ^ 31 then 7 else 8)"

definition uint_to_float :: "nat \<Rightarrow> real" where
  "uint_to_float a = real (round_shift a (float_ulp_exp a))"

definition int_to_float :: "int \<Rightarrow> real" where
  "int_to_float i = (if i < 0 then - uint_to_float (nat (- i)) else uint_to_float (nat i))"

text \<open>
  The conversion \<^verbatim>\<open>(size_t)idxf\<close>: the fraction is discarded, and the behaviour is
  undefined when the integral part is not a \<^verbatim>\<open>size_t\<close> value.
\<close>

definition float_to_size_t :: "real \<Rightarrow> nat option" where
  "float_to_size_t x =
     (let i = (if 0 \<le> x then \<lfloor>x\<rfloor> else \<lceil>x\<rceil>)
      in if 0 \<le> i \<and> i < 2 ^ 32 then Some (nat i) else None)"

subsection \<open>Operations\<close>

definition reset :: "Controller \<Rightarrow> Controller" where
  "reset c = c\<lparr>pos_setpoint_m := 0, vel_setpoint_m := 0,
                vel_integrator_current_m := 0, current_setpoint_m := Finite 0\<rparr>"

definition set_error :: "Constants \<Rightarrow> 32 word \<Rightarrow> Controller \<times> Axis \<Rightarrow> Controller \<times> Axis" where
  "set_error k err ca =
     (case ca of (c, ax) \<Rightarrow>
        (c\<lparr>error_m := error_m c OR err\<rparr>,
         ax\<lparr>axis_error_m := axis_error_m ax OR ERROR_CONTROLLER_FAILED k\<rparr>))"

definition set_pos_setpoint :: "real \<Rightarrow> real \<Rightarrow> cfloat \<Rightarrow> Controller \<Rightarrow> Controller" where
  "set_pos_setpoint pos_setpoint vel_feed_forward current_feed_forward c =
     c\<lparr>pos_setpoint_m := pos_setpoint, vel_setpoint_m := vel_feed_forward,
       current_setpoint_m := current_feed_forward,
       config_m := (config_m c)\<lparr>control_mode := CTRL_MODE_POSITION_CONTROL\<rparr>\<rparr>"

definition set_vel_setpoint :: "real \<Rightarrow> cfloat \<Rightarrow> Controller \<Rightarrow> Controller" where
  "set_vel_setpoint vel_setpoint current_feed_forward c =
     c\<lparr>vel_setpoint_m := vel_setpoint, current_setpoint_m := current_feed_forward,
       config_m := (config_m c)\<lparr>control_mode := CTRL_MODE_VELOCITY_CONTROL\<rparr>\<rparr>"

definition set_current_setpoint :: "cfloat \<Rightarrow> Controller \<Rightarrow> Controller" where
  "set_current_setpoint current_setpoint c =
     c\<lparr>current_setpoint_m := current_setpoint,
       config_m := (config_m c)\<lparr>control_mode := CTRL_MODE_CURRENT_CONTROL\<rparr>\<rparr>"

subsection \<open>The blocks of update\<close>

text \<open>Trajectory control. The loop count delta is an unsigned subtraction.\<close>

definition traj_elapsed :: "Constants \<Rightarrow> Axis \<Rightarrow> Controller \<Rightarrow> real" where
  "traj_elapsed k ax c =
     real (unat (loop_counter_m ax - traj_start_loop_count_m c)) * current_meas_period k"

definition trajectory_control :: "Constants \<Rightarrow> Axis \<Rightarrow> Controller \<Rightarrow> Controller" where
  "trajectory_control k ax c =
     (if control_mode (config_m c) = CTRL_MODE_TRAJECTORY_CONTROL then
        let t = traj_elapsed k ax c in
        if t > trap_Tf_m ax then
          c\<lparr>config_m := (config_m c)\<lparr>control_mode := CTRL_MODE_POSITION_CONTROL\<rparr>,
            vel_setpoint_m := 0, current_setpoint_m := Finite 0\<rparr>
        else
          let traj_step = trap_eval ax t in
          c\<lparr>pos_setpoint_m := Y traj_step, vel_setpoint_m := Yd traj_step,
            current_setpoint_m := Finite (Ydd traj_step * trap_A_per_css ax)\<rparr>
      else c)"

text \<open>Ramp rate limited velocity setpoint.\<close>

definition velocity_ramp :: "Constants \<Rightarrow> Controller \<Rightarrow> Controller" where
  "velocity_ramp k c =
     (if control_mode (config_m c) = CTRL_MODE_VELOCITY_CONTROL \<and> vel_ramp_enable (config_m c) then
        let max_step_size = current_meas_period k * vel_ramp_rate (config_m c);
            full_step = vel_ramp_target_m c - vel_setpoint_m c;
            step = clamp_bidirf full_step max_step_size
        in c\<lparr>vel_setpoint_m := vel_setpoint_m c + step\<rparr>
      else c)"

text \<open>
  Position control. \<open>position_error\<close> is the inner block that computes \<^verbatim>\<open>pos_err\<close>
  (and normalises the position setpoint when setpoints are circular).
\<close>

definition position_error :: "Axis \<Rightarrow> Controller \<Rightarrow> real \<Rightarrow> Controller \<times> real" where
  "position_error ax c pos_estimate =
     (if setpoints_in_cpr (config_m c) then
        let cpr = real_of_int (encoder_cpr ax);
            c1 = c\<lparr>pos_setpoint_m := fmodf_pos (pos_setpoint_m c) cpr\<rparr>;
            pos_err = pos_setpoint_m c1 - encoder_pos_cpr_m ax
        in (c1, wrap_pm pos_err (0.5 * cpr))
      else (c, pos_setpoint_m c - pos_estimate))"

definition position_control :: "Axis \<Rightarrow> Controller \<Rightarrow> real \<Rightarrow> Controller \<times> real" where
  "position_control ax c pos_estimate =
     (let vel_des = vel_setpoint_m c in
      if mode_rank (control_mode (config_m c)) \<ge> mode_rank CTRL_MODE_POSITION_CONTROL then
        let (c1, pos_err) = position_error ax c pos_estimate
        in (c1, vel_des + pos_gain (config_m c1) * pos_err)
      else (c, vel_des))"

text \<open>Velocity limiting.\<close>

definition velocity_limiting :: "real \<Rightarrow> real \<Rightarrow> real" where
  "velocity_limiting vel_lim vel_des =
     (let vel_des1 = (if vel_des > vel_lim then vel_lim else vel_des)
      in if vel_des1 < - vel_lim then - vel_lim else vel_des1)"

text \<open>The overspeed test; a tolerance of 0 disables it.\<close>

definition overspeed :: "Config_t \<Rightarrow> real \<Rightarrow> real \<Rightarrow> bool" where
  "overspeed cfg vel_lim vel_estimate =
     (vel_limit_tolerance cfg > 0 \<and> \<bar>vel_estimate\<bar> > vel_limit_tolerance cfg * vel_lim)"

text \<open>Torque per amp gain scheduling (ACIM): the pair (vel_gain, vel_integrator_gain).\<close>

definition gain_scheduling :: "Axis \<Rightarrow> Config_t \<Rightarrow> (real \<times> real) option" where
  "gain_scheduling ax cfg =
     (if motor_type ax = MOTOR_TYPE_ACIM then
        let effective_flux = acim_rotor_flux ax;
            minflux = acim_gain_min_flux ax;
            effective_flux1 =
              (if \<bar>effective_flux\<bar> < minflux then copysignf minflux effective_flux
               else effective_flux)
        in if effective_flux1 = 0 then None
           else Some (vel_gain cfg / effective_flux1, vel_integrator_gain cfg / effective_flux1)
      else Some (vel_gain cfg, vel_integrator_gain cfg))"

text \<open>
  Anticogging: the indices \<^verbatim>\<open>idx\<close>, \<^verbatim>\<open>idx1\<close> and the weight \<^verbatim>\<open>frac\<close>. The two encoder
  integers and \<^verbatim>\<open>cogmap_size\<close> are converted to \<^verbatim>\<open>float\<close> before the division and the
  product.
\<close>

definition cogmap_index :: "Axis \<Rightarrow> Config_t \<Rightarrow> (nat \<times> nat \<times> real) option" where
  "cogmap_index ax cfg =
     (if encoder_cpr ax = 0 then None
      else
        let pos_ratio = int_to_float (encoder_count_in_cpr_m ax) / int_to_float (encoder_cpr ax);
            idxf = pos_ratio * uint_to_float (unat (cogmap_size cfg))
        in case float_to_size_t idxf of
             None \<Rightarrow> None
           | Some idx \<Rightarrow>
               if cogmap_size cfg = 0 then None
               else
                 let idx1 = ((idx + 1) mod 2 ^ 32) mod unat (cogmap_size cfg);
                     frac' = idxf - real idx
                 in Some (idx, idx1, frac'))"

text \<open>The linear interpolation; it reads two entries of the map.\<close>

definition cogmap_lookup :: "real list \<Rightarrow> nat \<Rightarrow> nat \<Rightarrow> real \<Rightarrow> real option" where
  "cogmap_lookup m idx idx1 frac' =
     (if idx < length m \<and> idx1 < length m
      then Some ((1 - frac') * m ! idx + frac' * m ! idx1)
      else None)"

text \<open>
  Anticogging integral and linear broadcast: the four assignments to the map, in the
  source's order (the two entries may be the same one).
\<close>

definition cogmap_adapt :: "real list \<Rightarrow> nat \<Rightarrow> nat \<Rightarrow> real \<Rightarrow> real \<Rightarrow> real \<Rightarrow> real list" where
  "cogmap_adapt m idx idx1 frac' cogmap_correction max_current =
     (let m1 = m[idx := m ! idx + (1 - frac') * cogmap_correction];
          m2 = m1[idx1 := m1 ! idx1 + frac' * cogmap_correction];
          m3 = m2[idx := clamp_bidirf (m2 ! idx) max_current]
      in m3[idx1 := clamp_bidirf (m3 ! idx1) max_current])"

text \<open>Velocity control: proportional feedback and the adaptation of the map.\<close>

definition velocity_control ::
  "Constants \<Rightarrow> Controller \<Rightarrow> real \<Rightarrow> real \<Rightarrow> nat \<Rightarrow> nat \<Rightarrow> real \<Rightarrow> cfloat
     \<Rightarrow> Controller \<times> cfloat" where
  "velocity_control k c vel_gain_s v_err idx idx1 frac' Iq =
     (if mode_rank (control_mode (config_m c)) \<ge> mode_rank CTRL_MODE_VELOCITY_CONTROL then
        let cogmap_corr_rate = cogmap_integrator_gain (config_m c) * v_err;
            cogmap_correction = cogmap_corr_rate * current_meas_period k;
            m = cogmap_adapt (cogmap (config_m c)) idx idx1 frac' cogmap_correction
                  (cogmap_max_current (config_m c))
        in (c\<lparr>config_m := (config_m c)\<lparr>cogmap := m\<rparr>,
              cogmap_correction_pwr_m := cogmap_correction_pwr_m c
                + 0.001 * (cogmap_corr_rate * cogmap_corr_rate - cogmap_correction_pwr_m c)\<rparr>,
            fadd Iq (Finite (vel_gain_s * v_err)))
      else (c, Iq))"

text \<open>
  Current limiting: the flag \<^verbatim>\<open>limited\<close> and the limited current. The two tests are float
  comparisons of the accumulator with the limit.
\<close>

definition current_limiting :: "real \<Rightarrow> cfloat \<Rightarrow> bool \<times> cfloat" where
  "current_limiting Ilim Iq =
     (let (limited1, Iq1) = (if fgt Iq (Finite Ilim) then (True, Finite Ilim) else (False, Iq))
      in if flt Iq1 (Finite (- Ilim)) then (True, Finite (- Ilim)) else (limited1, Iq1))"

text \<open>Velocity integrator (behaviour dependent on limiting).\<close>

definition integrator_update :: "Constants \<Rightarrow> Controller \<Rightarrow> real \<Rightarrow> real \<Rightarrow> bool \<Rightarrow> Controller" where
  "integrator_update k c vel_integrator_gain_s v_err limited =
     (if mode_rank (control_mode (config_m c)) < mode_rank CTRL_MODE_VELOCITY_CONTROL then
        c\<lparr>vel_integrator_current_m := 0\<rparr>
      else if limited then
        c\<lparr>vel_integrator_current_m := vel_integrator_current_m c * 0.99\<rparr>
      else
        c\<lparr>vel_integrator_current_m := vel_integrator_current_m c
             + (vel_integrator_gain_s * current_meas_period k) * v_err\<rparr>)"

subsection \<open>update\<close>

definition update ::
  "Constants \<Rightarrow> Axis \<Rightarrow> Controller \<Rightarrow> real \<Rightarrow> real \<Rightarrow> cfloat option \<Rightarrow> Update_result option" where
  "update k ax c pos_estimate vel_estimate current_setpoint_output =
     (let c1 = trajectory_control k ax c;
          c2 = velocity_ramp k c1;
          (c3, vel_des0) = position_control ax c2 pos_estimate;
          vel_lim = vel_limit (config_m c3);
          vel_des = velocity_limiting vel_lim vel_des0
      in if overspeed (config_m c3) vel_lim vel_estimate then
           let (c4, ax1) = set_error k (ERROR_OVERSPEED k) (c3, ax)
           in Some \<lparr>ret = False, output_cell = current_setpoint_output, controller = c4, axis = ax1\<rparr>
         else
           case gain_scheduling ax (config_m c3) of
             None \<Rightarrow> None
           | Some (vel_gain_s, vel_integrator_gain_s) \<Rightarrow>
               (case cogmap_index ax (config_m c3) of
                  None \<Rightarrow> None
                | Some (idx, idx1, frac') \<Rightarrow>
                    (case cogmap_lookup (cogmap (config_m c3)) idx idx1 frac' of
                       None \<Rightarrow> None
                     | Some cogmap_current \<Rightarrow>
                         let Iq0 = current_setpoint_m c3;
                             c5 = c3\<lparr>cogmap_current_m := cogmap_current\<rparr>;
                             Iq1 = fadd Iq0 (Finite cogmap_current);
                             v_err = vel_des - vel_estimate;
                             (c6, Iq2) = velocity_control k c5 vel_gain_s v_err idx idx1 frac' Iq1;
                             Iq3 = fadd Iq2 (Finite (vel_integrator_current_m c6));
                             Ilim = effective_current_lim ax;
                             (limited, Iq) = current_limiting Ilim Iq3;
                             c7 = integrator_update k c6 vel_integrator_gain_s v_err limited
                         in Some \<lparr>ret = True,
                                  output_cell = (case current_setpoint_output of
                                              None \<Rightarrow> None | Some old \<Rightarrow> Some Iq),
                                  controller = c7, axis = ax\<rparr>)))"

subsection \<open>Quantities of one cycle\<close>

text \<open>
  Names for the intermediate values of \<open>update\<close> that the properties speak about: the
  controller after setpoint source processing (trajectory, ramp, position loop), the mode
  after the trajectory block, and the velocity demand \<^verbatim>\<open>vel_des\<close> after limiting.
\<close>

definition setpoints :: "Constants \<Rightarrow> Axis \<Rightarrow> Controller \<Rightarrow> real \<Rightarrow> Controller" where
  "setpoints k ax c pos_estimate =
     fst (position_control ax (velocity_ramp k (trajectory_control k ax c)) pos_estimate)"

definition mode_after :: "Constants \<Rightarrow> Axis \<Rightarrow> Controller \<Rightarrow> Control_mode" where
  "mode_after k ax c = control_mode (config_m (trajectory_control k ax c))"

definition vel_demand :: "Constants \<Rightarrow> Axis \<Rightarrow> Controller \<Rightarrow> real \<Rightarrow> real" where
  "vel_demand k ax c pos_estimate =
     velocity_limiting (vel_limit (config_m c))
       (snd (position_control ax (velocity_ramp k (trajectory_control k ax c)) pos_estimate))"

text \<open>
  Preconditions under which the cogging lookup stays inside the map: the encoder count
  lies in one revolution, the counts per revolution and the size of the map are at most
  \<open>2 ^ 24\<close> (so that their conversions to \<^verbatim>\<open>float\<close> are exact), and the map has
  \<^verbatim>\<open>cogmap_size\<close> entries, at least one.
\<close>

definition cogmap_wf :: "Axis \<Rightarrow> Config_t \<Rightarrow> bool" where
  "cogmap_wf ax cfg =
     (0 \<le> encoder_count_in_cpr_m ax \<and> encoder_count_in_cpr_m ax < encoder_cpr ax
      \<and> encoder_cpr ax \<le> 2 ^ 24
      \<and> 0 < cogmap_size cfg \<and> unat (cogmap_size cfg) \<le> 2 ^ 24
      \<and> length (cogmap cfg) = unat (cogmap_size cfg))"

text \<open>
  The cogging lookup of a cycle is defined: the indices are computed and both reads are
  inside the map.
\<close>

definition cogmap_lookup_defined :: "Axis \<Rightarrow> Config_t \<Rightarrow> bool" where
  "cogmap_lookup_defined ax cfg =
     (case cogmap_index ax cfg of
        None \<Rightarrow> False
      | Some (idx, idx1, frac') \<Rightarrow> idx < length (cogmap cfg) \<and> idx1 < length (cogmap cfg))"

text \<open>Further calls of \<open>update\<close> with the same estimates, each on what the last one left.\<close>

fun update_again :: "Constants \<Rightarrow> real \<Rightarrow> real \<Rightarrow> nat \<Rightarrow> Update_result \<Rightarrow> Update_result option" where
  "update_again k pos_estimate vel_estimate 0 r = Some r"
| "update_again k pos_estimate vel_estimate (Suc n) r =
     (case update k (axis r) (controller r) pos_estimate vel_estimate (output_cell r) of
        None \<Rightarrow> None
      | Some r1 \<Rightarrow> update_again k pos_estimate vel_estimate n r1)"

text \<open>The map after a sequence of cycles at fixed indices, one correction per cycle.\<close>

fun cogmap_adapt_seq :: "real list \<Rightarrow> nat \<Rightarrow> nat \<Rightarrow> real \<Rightarrow> real \<Rightarrow> real list \<Rightarrow> real list" where
  "cogmap_adapt_seq m idx idx1 frac' max_current [] = m"
| "cogmap_adapt_seq m idx idx1 frac' max_current (corr # corrs) =
     cogmap_adapt_seq (cogmap_adapt m idx idx1 frac' corr max_current) idx idx1 frac' max_current corrs"

subsection \<open>A concrete axis and controller\<close>

text \<open>
  An 8 kHz cycle, an encoder with 8192 counts at three eighths of a revolution, a map of
  four entries, a current limit of 10 A. The planner \<open>hold_step\<close> returns the same sample
  at every time.
\<close>

fun hold_step :: "Step_t \<Rightarrow> real \<Rightarrow> Step_t" where
  "hold_step s t = s"

definition example_constants :: Constants where
  "example_constants =
     \<lparr>current_meas_period = 1 / 8000, ERROR_OVERSPEED = 1, ERROR_CONTROLLER_FAILED = 512\<rparr>"

definition example_axis :: Axis where
  "example_axis =
     \<lparr>axis_error_m = 0, loop_counter_m = 100, trap_Tf_m = 1 / 100,
      trap_eval = hold_step \<lparr>Y = 10000, Yd = 2, Ydd = 3\<rparr>, trap_A_per_css = 1 / 2,
      encoder_cpr = 8192, encoder_pos_cpr_m = 50, encoder_count_in_cpr_m = 3072,
      motor_type = MOTOR_TYPE_PERMANENT_MAGNET, acim_rotor_flux = 0, acim_gain_min_flux = 10,
      effective_current_lim = 10\<rparr>"

definition example_config :: Config_t where
  "example_config =
     \<lparr>control_mode = CTRL_MODE_VELOCITY_CONTROL, pos_gain = 20, vel_gain = 1 / 2,
      vel_integrator_gain = 8, vel_limit = 10, vel_limit_tolerance = 6 / 5,
      vel_ramp_enable = False, vel_ramp_rate = 10000, setpoints_in_cpr = False,
      cogmap = [0, 1 / 4, 1 / 2, 1 / 4], cogmap_size = 4, cogmap_integrator_gain = 800,
      cogmap_max_current = 1\<rparr>"

definition example_controller :: Controller where
  "example_controller =
     \<lparr>config_m = example_config, error_m = 0, pos_setpoint_m = 8100, vel_setpoint_m = 5,
      current_setpoint_m = Finite 1, vel_integrator_current_m = 1 / 10, vel_ramp_target_m = 0,
      goal_point_m = 0, traj_start_loop_count_m = 0, cogmap_current_m = 0,
      cogmap_correction_pwr_m = 0\<rparr>"

text \<open>
  The same controller in trajectory mode with circular setpoints, its position setpoint
  more than one revolution away from zero.
\<close>

definition example_trajectory :: Controller where
  "example_trajectory =
     example_controller
       \<lparr>config_m := example_config\<lparr>control_mode := CTRL_MODE_TRAJECTORY_CONTROL,
                                   setpoints_in_cpr := True\<rparr>,
        pos_setpoint_m := 10000\<rparr>"

text \<open>An encoder with \<open>2 ^ 25\<close> counts per revolution, at the last count.\<close>

definition example_fine_encoder :: Axis where
  "example_fine_encoder =
     example_axis\<lparr>encoder_cpr := 33554432, encoder_count_in_cpr_m := 33554431\<rparr>"

fun with_mode :: "Control_mode \<Rightarrow> Controller \<Rightarrow> Controller" where
  "with_mode m c = c\<lparr>config_m := (config_m c)\<lparr>control_mode := m\<rparr>\<rparr>"

section \<open>Properties\<close>

subsection \<open>Evaluation on concrete inputs\<close>

lemmas block_defs =
  trajectory_control_def traj_elapsed_def velocity_ramp_def position_control_def
  position_error_def velocity_limiting_def overspeed_def gain_scheduling_def cogmap_index_def
  cogmap_lookup_def cogmap_adapt_def velocity_control_def current_limiting_def
  integrator_update_def set_error_def float_to_size_t_def fmodf_pos_def wrap_pm_def
  clamp_bidirf_def copysignf_def int_to_float_def uint_to_float_def round_shift_def
  float_ulp_exp_def

lemmas example_defs =
  example_constants_def example_axis_def example_config_def example_controller_def
  example_trajectory_def example_fine_encoder_def

subsection \<open>What setpoint processing leaves alone\<close>

lemma trajectory_control_config:
  "config_m (trajectory_control k ax c) = (config_m c)\<lparr>control_mode := mode_after k ax c\<rparr>"
  by (simp add: mode_after_def trajectory_control_def Let_def)

lemma velocity_ramp_config: "config_m (velocity_ramp k c) = config_m c"
  by (simp add: velocity_ramp_def Let_def)

lemma position_control_config: "config_m (fst (position_control ax c pe)) = config_m c"
  by (simp add: position_control_def position_error_def Let_def split: prod.splits)

lemma setpoints_config:
  "config_m (setpoints k ax c pe) = (config_m c)\<lparr>control_mode := mode_after k ax c\<rparr>"
  by (simp add: setpoints_def position_control_config velocity_ramp_config
      trajectory_control_config)

lemma mode_after_cases:
  "mode_after k ax c = control_mode (config_m c) \<or>
   (control_mode (config_m c) = CTRL_MODE_TRAJECTORY_CONTROL
    \<and> mode_after k ax c = CTRL_MODE_POSITION_CONTROL)"
  by (simp add: mode_after_def trajectory_control_def Let_def)

lemma mode_after_velocity:
  "(mode_rank CTRL_MODE_VELOCITY_CONTROL \<le> mode_rank (mode_after k ax c)) =
   (mode_rank CTRL_MODE_VELOCITY_CONTROL \<le> mode_rank (control_mode (config_m c)))"
  using mode_after_cases [of k ax c] by auto

lemma mode_after_position:
  "(mode_rank CTRL_MODE_POSITION_CONTROL \<le> mode_rank (mode_after k ax c)) =
   (mode_rank CTRL_MODE_POSITION_CONTROL \<le> mode_rank (control_mode (config_m c)))"
  using mode_after_cases [of k ax c] by auto

lemma gain_scheduling_mode [simp]:
  "gain_scheduling ax (cfg\<lparr>control_mode := m\<rparr>) = gain_scheduling ax cfg"
  by (simp add: gain_scheduling_def Let_def)

lemma cogmap_index_mode [simp]:
  "cogmap_index ax (cfg\<lparr>control_mode := m\<rparr>) = cogmap_index ax cfg"
  by (simp add: cogmap_index_def Let_def split: option.splits)

lemma overspeed_mode [simp]:
  "overspeed (cfg\<lparr>control_mode := m\<rparr>) = overspeed cfg"
  by (simp add: overspeed_def fun_eq_iff)

subsection \<open>One cycle, block by block\<close>

text \<open>
  \<open>update\<close> with the setpoint processing folded into \<open>setpoints\<close> and \<open>vel_demand\<close>, and
  the tests that only read the configuration moved to the configuration before the call.
\<close>

lemma update_unfold:
  "update k ax c pe ve out =
     (let c3 = setpoints k ax c pe;
          v_err = vel_demand k ax c pe - ve
      in if overspeed (config_m c) (vel_limit (config_m c)) ve then
           Some \<lparr>ret = False, output_cell = out,
                 controller = c3\<lparr>error_m := error_m c3 OR ERROR_OVERSPEED k\<rparr>,
                 axis = ax\<lparr>axis_error_m := axis_error_m ax OR ERROR_CONTROLLER_FAILED k\<rparr>\<rparr>
         else
           case gain_scheduling ax (config_m c) of
             None \<Rightarrow> None
           | Some (vg, vig) \<Rightarrow>
               (case cogmap_index ax (config_m c) of
                  None \<Rightarrow> None
                | Some (idx, idx1, fr) \<Rightarrow>
                    (case cogmap_lookup (cogmap (config_m c)) idx idx1 fr of
                       None \<Rightarrow> None
                     | Some cog \<Rightarrow>
                         let vc = velocity_control k (c3\<lparr>cogmap_current_m := cog\<rparr>) vg v_err
                                    idx idx1 fr (fadd (current_setpoint_m c3) (Finite cog));
                             lim = current_limiting (effective_current_lim ax)
                                     (fadd (snd vc) (Finite (vel_integrator_current_m (fst vc))))
                         in Some \<lparr>ret = True, output_cell = map_option (\<lambda>old. snd lim) out,
                                  controller = integrator_update k (fst vc) vig v_err (fst lim),
                                  axis = ax\<rparr>)))"
  unfolding update_def setpoints_def vel_demand_def
  by (simp add: Let_def split_beta set_error_def position_control_config velocity_ramp_config
        trajectory_control_config map_option_case
      split: option.splits)

subsection \<open>The cogging map indices\<close>

lemma float_to_size_t_nonneg:
  assumes "0 \<le> x" and "x < 2 ^ 32"
  shows "float_to_size_t x = Some (nat \<lfloor>x\<rfloor>)"
proof -
  have "\<lfloor>x\<rfloor> < 2 ^ 32" using assms(2) by (simp add: floor_less_iff)
  moreover have "0 \<le> \<lfloor>x\<rfloor>" using assms(1) by simp
  ultimately show ?thesis using assms(1) by (simp add: float_to_size_t_def)
qed

lemma uint_to_float_exact:
  assumes "a \<le> 2 ^ 24"
  shows "uint_to_float a = real a"
proof (cases "a < 2 ^ 24")
  case True
  then show ?thesis by (simp add: uint_to_float_def float_ulp_exp_def round_shift_def)
next
  case False
  with assms have "a = 2 ^ 24" by simp
  then show ?thesis by (simp add: uint_to_float_def float_ulp_exp_def round_shift_def)
qed

lemma uint_to_float_nonneg: "0 \<le> uint_to_float a"
  by (simp add: uint_to_float_def)

lemma int_to_float_exact:
  assumes "0 \<le> i" and "i \<le> 2 ^ 24"
  shows "int_to_float i = real_of_int i"
proof -
  have "nat i \<le> 2 ^ 24" using assms by (simp add: nat_le_iff)
  then have "uint_to_float (nat i) = real (nat i)" by (rule uint_to_float_exact)
  then show ?thesis using assms(1) by (simp add: int_to_float_def)
qed

lemma int_to_float_nonneg: "0 \<le> i \<Longrightarrow> 0 \<le> int_to_float i"
  by (simp add: int_to_float_def uint_to_float_nonneg)

lemma cogmap_index_Some:
  assumes c0: "0 \<le> encoder_count_in_cpr_m ax"
    and c1: "encoder_count_in_cpr_m ax < encoder_cpr ax"
    and c2: "encoder_cpr ax \<le> 2 ^ 24"
    and s0: "0 < cogmap_size cfg"
    and s1: "unat (cogmap_size cfg) \<le> 2 ^ 24"
  shows "\<exists>idx idx1 fr. cogmap_index ax cfg = Some (idx, idx1, fr)
      \<and> idx < unat (cogmap_size cfg) \<and> idx1 < unat (cogmap_size cfg)
      \<and> idx1 = (idx + 1) mod unat (cogmap_size cfg) \<and> 0 \<le> fr \<and> fr < 1"
proof -
  define n where "n = unat (cogmap_size cfg)"
  define r where "r = real_of_int (encoder_count_in_cpr_m ax) / real_of_int (encoder_cpr ax)"
  define x where "x = r * real n"
  have fc: "int_to_float (encoder_count_in_cpr_m ax) = real_of_int (encoder_count_in_cpr_m ax)"
    using c0 c1 c2 by (intro int_to_float_exact) simp_all
  have fp: "int_to_float (encoder_cpr ax) = real_of_int (encoder_cpr ax)"
    using c0 c1 c2 by (intro int_to_float_exact) simp_all
  have fs: "uint_to_float (unat (cogmap_size cfg)) = real n"
    unfolding n_def by (rule uint_to_float_exact [OF s1])
  have cpr_pos: "0 < real_of_int (encoder_cpr ax)" using c0 c1 by simp
  have n_pos: "0 < n" using s0 by (simp add: n_def unat_gt_0)
  have n_lt: "n < 2 ^ 32" using unsigned_less [of "cogmap_size cfg"] by (simp add: n_def)
  have r0: "0 \<le> r" using c0 cpr_pos by (simp add: r_def)
  have r1: "r < 1" using c1 cpr_pos by (simp add: r_def)
  have x0: "0 \<le> x" using r0 by (simp add: x_def)
  have xn: "x < real n" using r1 n_pos by (simp add: x_def)
  have "real n < real (2 ^ 32)" using n_lt by (simp only: of_nat_less_iff)
  then have x32: "x < 2 ^ 32" using xn by simp
  have conv: "float_to_size_t x = Some (nat \<lfloor>x\<rfloor>)"
    by (rule float_to_size_t_nonneg [OF x0 x32])
  have idx_lt: "nat \<lfloor>x\<rfloor> < n" using x0 xn by (simp add: floor_less_iff nat_less_iff)
  have nowrap: "(nat \<lfloor>x\<rfloor> + 1) mod 2 ^ 32 = nat \<lfloor>x\<rfloor> + 1" using idx_lt n_lt by simp
  have f0: "0 \<le> x - real (nat \<lfloor>x\<rfloor>)" using x0 by simp
  have f1: "x - real (nat \<lfloor>x\<rfloor>) < 1" using x0 by simp linarith
  have ne: "encoder_cpr ax \<noteq> 0" "cogmap_size cfg \<noteq> 0" using c0 c1 s0 by auto
  have "cogmap_index ax cfg
          = Some (nat \<lfloor>x\<rfloor>, (nat \<lfloor>x\<rfloor> + 1) mod n, x - real (nat \<lfloor>x\<rfloor>))"
    using ne conv nowrap unfolding cogmap_index_def fc fp fs
    by (simp add: Let_def x_def r_def n_def)
  then show ?thesis using idx_lt n_pos f0 f1 by (simp add: n_def)
qed

text \<open>
  The weight of the interpolation lies in \<open>[0, 1)\<close> whenever the encoder count is not
  negative and the counts per revolution are positive, whatever the conversions round to.
\<close>

lemma cogmap_index_frac:
  assumes i: "cogmap_index ax cfg = Some (idx, idx1, fr)"
    and c0: "0 \<le> encoder_count_in_cpr_m ax"
    and c1: "0 \<le> encoder_cpr ax"
  shows "0 \<le> fr" and "fr < 1"
proof -
  define x where "x = int_to_float (encoder_count_in_cpr_m ax) / int_to_float (encoder_cpr ax)
      * uint_to_float (unat (cogmap_size cfg))"
  have x0: "0 \<le> x"
    unfolding x_def
    using int_to_float_nonneg [OF c0] int_to_float_nonneg [OF c1] uint_to_float_nonneg
    by simp
  from i have "float_to_size_t x = Some idx" and fr: "fr = x - real idx"
    by (auto simp add: cogmap_index_def Let_def x_def split: if_splits option.splits)
  then have idx: "idx = nat \<lfloor>x\<rfloor>"
    using x0 by (auto simp add: float_to_size_t_def Let_def split: if_splits)
  show "0 \<le> fr" unfolding fr idx using x0 by simp
  show "fr < 1" unfolding fr idx using x0 by simp linarith
qed




lemma fadd_zero [simp]: "fadd x (Finite 0) = x"
  by (cases x) simp_all

lemma fadd_NaN [simp]: "fadd NaN y = NaN" "fadd x NaN = NaN"
  by (cases x, simp_all)+

lemma current_limiting_NaN: "current_limiting L NaN = (False, NaN)"
  by (simp add: current_limiting_def)

lemma current_limiting_bound:
  assumes "0 \<le> L" and "snd (current_limiting L x) \<noteq> NaN"
  shows "fle (fabsf (snd (current_limiting L x))) (Finite L)"
proof (cases x)
  case NaN
  with assms(2) show ?thesis by (simp add: current_limiting_NaN)
next
  case (Finite a)
  with assms(1) show ?thesis
    by (auto simp add: current_limiting_def Let_def split: if_splits)
qed

lemma current_limiting_flag:
  "fst (current_limiting L x) = (fgt x (Finite L) \<or> flt x (Finite (- L)))"
  by (cases x) (auto simp add: current_limiting_def Let_def split: if_splits)

lemma current_limiting_unlimited:
  "\<not> fst (current_limiting L x) \<Longrightarrow> snd (current_limiting L x) = x"
  by (cases x) (auto simp add: current_limiting_def Let_def split: if_splits)

lemma velocity_control_current:
  "snd (velocity_control k c vg v_err idx idx1 fr Iq) =
     fadd Iq (Finite (if mode_rank CTRL_MODE_VELOCITY_CONTROL
                          \<le> mode_rank (control_mode (config_m c))
                      then vg * v_err else 0))"
  by (simp add: velocity_control_def Let_def)

lemma velocity_control_integrator:
  "vel_integrator_current_m (fst (velocity_control k c vg v_err idx idx1 fr Iq)) =
     vel_integrator_current_m c"
  by (simp add: velocity_control_def Let_def)

lemma velocity_control_mode:
  "control_mode (config_m (fst (velocity_control k c vg v_err idx idx1 fr Iq))) =
     control_mode (config_m c)"
  by (simp add: velocity_control_def Let_def)

lemma setpoints_integrator:
  "vel_integrator_current_m (setpoints k ax c pe) = vel_integrator_current_m c"
  by (simp add: setpoints_def position_control_def position_error_def velocity_ramp_def
      trajectory_control_def Let_def split_beta)

lemma setpoints_error: "error_m (setpoints k ax c pe) = error_m c"
  by (simp add: setpoints_def position_control_def position_error_def velocity_ramp_def
      trajectory_control_def Let_def split_beta)

lemma update_overspeed:
  assumes "overspeed (config_m c) (vel_limit (config_m c)) ve"
  shows "update k ax c pe ve out =
     Some \<lparr>ret = False, output_cell = out,
           controller = (setpoints k ax c pe)\<lparr>error_m := error_m c OR ERROR_OVERSPEED k\<rparr>,
           axis = ax\<lparr>axis_error_m := axis_error_m ax OR ERROR_CONTROLLER_FAILED k\<rparr>\<rparr>"
  using assms by (simp add: update_unfold Let_def setpoints_error)

lemma update_normal:
  assumes "\<not> overspeed (config_m c) (vel_limit (config_m c)) ve"
    and "gain_scheduling ax (config_m c) = Some (vg, vig)"
    and "cogmap_index ax (config_m c) = Some (idx, idx1, fr)"
    and "cogmap_lookup (cogmap (config_m c)) idx idx1 fr = Some cog"
  shows "update k ax c pe ve out =
     Some \<lparr>ret = True,
           output_cell = map_option (\<lambda>old. snd (current_limiting (effective_current_lim ax)
             (fadd (snd (velocity_control k ((setpoints k ax c pe)\<lparr>cogmap_current_m := cog\<rparr>) vg
                    (vel_demand k ax c pe - ve) idx idx1 fr
                    (fadd (current_setpoint_m (setpoints k ax c pe)) (Finite cog))))
              (Finite (vel_integrator_current_m c))))) out,
           controller = integrator_update k
             (fst (velocity_control k ((setpoints k ax c pe)\<lparr>cogmap_current_m := cog\<rparr>) vg
                    (vel_demand k ax c pe - ve) idx idx1 fr
                    (fadd (current_setpoint_m (setpoints k ax c pe)) (Finite cog))))
             vig (vel_demand k ax c pe - ve)
             (fst (current_limiting (effective_current_lim ax)
             (fadd (snd (velocity_control k ((setpoints k ax c pe)\<lparr>cogmap_current_m := cog\<rparr>) vg
                    (vel_demand k ax c pe - ve) idx idx1 fr
                    (fadd (current_setpoint_m (setpoints k ax c pe)) (Finite cog))))
              (Finite (vel_integrator_current_m c))))),
           axis = ax\<rparr>"
  using assms by (simp add: update_unfold Let_def velocity_control_integrator setpoints_integrator)

lemma update_Some_cases:
  assumes "update k ax c pe ve out = Some r"
  shows "(overspeed (config_m c) (vel_limit (config_m c)) ve \<and> \<not> ret r)
       \<or> (\<not> overspeed (config_m c) (vel_limit (config_m c)) ve \<and> ret r \<and>
           (\<exists>vg vig idx idx1 fr cog. gain_scheduling ax (config_m c) = Some (vg, vig)
              \<and> cogmap_index ax (config_m c) = Some (idx, idx1, fr)
              \<and> cogmap_lookup (cogmap (config_m c)) idx idx1 fr = Some cog))"
  using assms by (auto simp add: update_unfold Let_def split: if_splits option.splits)

lemma velocity_control_error:
  "error_m (fst (velocity_control k c vg v_err idx idx1 fr Iq)) = error_m c"
  by (simp add: velocity_control_def Let_def)

lemma integrator_update_error: "error_m (integrator_update k c vig v_err l) = error_m c"
  by (simp add: integrator_update_def)

lemma integrator_update_integrator:
  "vel_integrator_current_m (integrator_update k c vig v_err l) =
     (if mode_rank (control_mode (config_m c)) < mode_rank CTRL_MODE_VELOCITY_CONTROL then 0
      else if l then vel_integrator_current_m c * 0.99
      else vel_integrator_current_m c + (vig * current_meas_period k) * v_err)"
  by (simp add: integrator_update_def)

lemma cogmap_wf_lookup:
  assumes "cogmap_wf ax cfg"
  shows "\<exists>idx idx1 fr cog. cogmap_index ax cfg = Some (idx, idx1, fr)
      \<and> cogmap_lookup (cogmap cfg) idx idx1 fr = Some cog
      \<and> idx < length (cogmap cfg) \<and> idx1 < length (cogmap cfg) \<and> 0 \<le> fr \<and> fr < 1"
proof -
  from assms have h: "0 \<le> encoder_count_in_cpr_m ax" "encoder_count_in_cpr_m ax < encoder_cpr ax"
    "encoder_cpr ax \<le> 2 ^ 24" "0 < cogmap_size cfg" "unat (cogmap_size cfg) \<le> 2 ^ 24"
    and len: "length (cogmap cfg) = unat (cogmap_size cfg)"
    by (simp_all add: cogmap_wf_def)
  obtain idx idx1 fr where i: "cogmap_index ax cfg = Some (idx, idx1, fr)"
    "idx < unat (cogmap_size cfg)" "idx1 < unat (cogmap_size cfg)" "0 \<le> fr" "fr < 1"
    using cogmap_index_Some [OF h] by blast
  then show ?thesis using len by (simp add: cogmap_lookup_def)
qed

lemma cogmap_lookup_defined_lookup:
  assumes "cogmap_lookup_defined ax cfg"
  shows "\<exists>idx idx1 fr cog. cogmap_index ax cfg = Some (idx, idx1, fr)
      \<and> cogmap_lookup (cogmap cfg) idx idx1 fr = Some cog"
  using assms
  by (auto simp add: cogmap_lookup_defined_def cogmap_lookup_def split: option.splits)

lemma cogmap_wf_defined: "cogmap_wf ax cfg \<Longrightarrow> cogmap_lookup_defined ax cfg"
  using cogmap_wf_lookup [of ax cfg] by (auto simp add: cogmap_lookup_defined_def)

text \<open>
  C1 (as amended). Whenever \<open>update\<close> returns true and the motor's effective current limit
  of that call is not negative, the current it writes to \<^verbatim>\<open>current_setpoint_output\<close> is
  either NaN or has an absolute value of at most that limit, for all setpoints, modes,
  estimates and contents of the cogging map. A NaN current setpoint makes the accumulator
  NaN; it fails both limit tests and NaN is written.
\<close>

theorem update_output_within_current_limit:
  assumes "update k ax c pe ve (Some old) = Some r"
    and "ret r"
    and "0 \<le> effective_current_lim ax"
  shows "\<exists>Iq. output_cell r = Some Iq
      \<and> (Iq \<noteq> NaN \<longrightarrow> fle (fabsf Iq) (Finite (effective_current_lim ax)))
      \<and> (current_setpoint_m (setpoints k ax c pe) = NaN \<longrightarrow> Iq = NaN)"
proof -
  from update_Some_cases [OF assms(1)] assms(2)
  obtain vg vig idx idx1 fr cog where
    n: "\<not> overspeed (config_m c) (vel_limit (config_m c)) ve"
      "gain_scheduling ax (config_m c) = Some (vg, vig)"
      "cogmap_index ax (config_m c) = Some (idx, idx1, fr)"
      "cogmap_lookup (cogmap (config_m c)) idx idx1 fr = Some cog"
    by blast
  define S where "S = fadd (snd (velocity_control k ((setpoints k ax c pe)\<lparr>cogmap_current_m := cog\<rparr>)
      vg (vel_demand k ax c pe - ve) idx idx1 fr
      (fadd (current_setpoint_m (setpoints k ax c pe)) (Finite cog))))
    (Finite (vel_integrator_current_m c))"
  from update_normal [OF n, of k pe "Some old"] assms(1)
  have o: "output_cell r = Some (snd (current_limiting (effective_current_lim ax) S))"
    unfolding S_def by auto
  have b: "snd (current_limiting (effective_current_lim ax) S) \<noteq> NaN
      \<longrightarrow> fle (fabsf (snd (current_limiting (effective_current_lim ax) S)))
            (Finite (effective_current_lim ax))"
    using current_limiting_bound [OF assms(3)] by blast
  have "S = NaN" if "current_setpoint_m (setpoints k ax c pe) = NaN"
    unfolding S_def using that by (simp add: velocity_control_current)
  then have "current_setpoint_m (setpoints k ax c pe) = NaN
      \<longrightarrow> snd (current_limiting (effective_current_lim ax) S) = NaN"
    by (simp add: current_limiting_NaN)
  with o b show ?thesis by blast
qed

theorem update_output_within_current_limit_witness:
  "\<exists>r. update example_constants (example_axis\<lparr>effective_current_lim := 1\<rparr>) example_controller 0 4
          (Some (Finite 0)) = Some r
     \<and> ret r \<and> 0 \<le> effective_current_lim (example_axis\<lparr>effective_current_lim := 1\<rparr>)
     \<and> output_cell r = Some (Finite 1)
     \<and> fle (fabsf (Finite 1)) (Finite (effective_current_lim (example_axis\<lparr>effective_current_lim := 1\<rparr>)))"
proof -
  have e: "\<exists>r. update example_constants (example_axis\<lparr>effective_current_lim := 1\<rparr>)
      example_controller 0 4 (Some (Finite 0)) = Some r \<and> ret r \<and> output_cell r = Some (Finite 1)"
    by (simp add: update_def block_defs example_defs Let_def)
  then obtain r where r: "update example_constants (example_axis\<lparr>effective_current_lim := 1\<rparr>)
      example_controller 0 4 (Some (Finite 0)) = Some r" "ret r" "output_cell r = Some (Finite 1)"
    by blast
  have l: "0 \<le> effective_current_lim (example_axis\<lparr>effective_current_lim := 1\<rparr>)" by simp
  from update_output_within_current_limit [OF r(1) r(2) l] r(3)
  have "fle (fabsf (Finite 1))
      (Finite (effective_current_lim (example_axis\<lparr>effective_current_lim := 1\<rparr>)))"
    by auto
  with r l show ?thesis by blast
qed

text \<open>
  C1 as stated fails: after \<^verbatim>\<open>set_current_setpoint\<close> with NaN, \<open>update\<close> returns true and
  writes NaN, whose absolute value is not at most the limit of 10.
\<close>

theorem update_writes_NaN_counterexample:
  "map_option ret
     (update example_constants example_axis (set_current_setpoint NaN example_controller) 0 4
        (Some (Finite 0))) = Some True
   \<and> 0 \<le> effective_current_lim example_axis
   \<and> map_option output_cell
       (update example_constants example_axis (set_current_setpoint NaN example_controller) 0 4
          (Some (Finite 0))) = Some (Some NaN)
   \<and> \<not> fle (fabsf NaN) (Finite (effective_current_lim example_axis))"
  by (simp add: update_def set_current_setpoint_def block_defs example_defs Let_def)

text \<open>
  C9. A call of \<open>update\<close> with a null \<^verbatim>\<open>current_setpoint_output\<close> leaves the same
  controller and axis and returns the same boolean as the call with a pointer to a cell;
  the cell is written only when the pointer is not null and the call returns true.
\<close>

theorem update_null_output:
  "update k ax c pe ve None = map_option (\<lambda>r. r\<lparr>output_cell := None\<rparr>) (update k ax c pe ve (Some old))
   \<and> (\<forall>r. update k ax c pe ve (Some old) = Some r \<and> \<not> ret r \<longrightarrow> output_cell r = Some old)
   \<and> (\<forall>r. update k ax c pe ve None = Some r \<longrightarrow> output_cell r = None)"
  by (auto simp add: update_unfold Let_def split: option.splits if_splits)

theorem update_null_output_witness:
  "update example_constants example_axis example_controller 0 13 None =
     map_option (\<lambda>r. r\<lparr>output_cell := None\<rparr>)
       (update example_constants example_axis example_controller 0 13 (Some (Finite 7)))
   \<and> (\<exists>r. update example_constants example_axis example_controller 0 13 (Some (Finite 7)) = Some r
         \<and> \<not> ret r \<and> output_cell r = Some (Finite 7))
   \<and> (\<exists>r. update example_constants example_axis example_controller 0 13 None = Some r
         \<and> output_cell r = None)"
proof -
  have o: "overspeed (config_m example_controller) (vel_limit (config_m example_controller)) 13"
    by (simp add: overspeed_def example_defs)
  obtain r where r: "update example_constants example_axis example_controller 0 13 (Some (Finite 7)) = Some r"
    "\<not> ret r"
    by (simp add: update_overspeed [OF o])
  obtain r0 where r0: "update example_constants example_axis example_controller 0 13 None = Some r0"
    by (simp add: update_overspeed [OF o])
  from update_null_output [of example_constants example_axis example_controller 0 13 "Finite 7"] r r0
  show ?thesis by auto
qed

lemma update_normal_fields:
  assumes u: "update k ax c pe ve out = Some r" and t: "ret r"
    and g: "gain_scheduling ax (config_m c) = Some (vg, vig)"
    and i: "cogmap_index ax (config_m c) = Some (idx, idx1, fr)"
  defines "S \<equiv> fadd (fadd (fadd (current_setpoint_m (setpoints k ax c pe))
          (Finite ((1 - fr) * cogmap (config_m c) ! idx + fr * cogmap (config_m c) ! idx1)))
        (Finite (if mode_rank CTRL_MODE_VELOCITY_CONTROL \<le> mode_rank (control_mode (config_m c))
                 then vg * (vel_demand k ax c pe - ve) else 0)))
      (Finite (vel_integrator_current_m c))"
  shows "output_cell r = map_option (\<lambda>old. snd (current_limiting (effective_current_lim ax) S)) out"
    and "vel_integrator_current_m (controller r) =
      (if mode_rank (control_mode (config_m c)) < mode_rank CTRL_MODE_VELOCITY_CONTROL then 0
       else if fst (current_limiting (effective_current_lim ax) S)
         then vel_integrator_current_m c * 0.99
       else vel_integrator_current_m c + (vig * current_meas_period k) * (vel_demand k ax c pe - ve))"
    and "error_m (controller r) = error_m c" and "axis r = ax"
    and "idx < length (cogmap (config_m c))" and "idx1 < length (cogmap (config_m c))"
proof -
  from update_Some_cases [OF u] t g i
  obtain cog where n: "\<not> overspeed (config_m c) (vel_limit (config_m c)) ve"
    and l: "cogmap_lookup (cogmap (config_m c)) idx idx1 fr = Some cog"
    by auto
  from l have cog: "cog = (1 - fr) * cogmap (config_m c) ! idx + fr * cogmap (config_m c) ! idx1"
    and b: "idx < length (cogmap (config_m c))" "idx1 < length (cogmap (config_m c))"
    by (auto simp add: cogmap_lookup_def split: if_splits)
  have m: "control_mode (config_m ((setpoints k ax c pe)\<lparr>cogmap_current_m := cog\<rparr>)) = mode_after k ax c"
    by (simp add: setpoints_config)
  have lt: "(mode_rank (mode_after k ax c) < mode_rank CTRL_MODE_VELOCITY_CONTROL) =
      (mode_rank (control_mode (config_m c)) < mode_rank CTRL_MODE_VELOCITY_CONTROL)"
    using mode_after_velocity [of k ax c] by auto
  have r: "r = \<lparr>ret = True,
           output_cell = map_option (\<lambda>old. snd (current_limiting (effective_current_lim ax)
             (fadd (snd (velocity_control k ((setpoints k ax c pe)\<lparr>cogmap_current_m := cog\<rparr>) vg
                    (vel_demand k ax c pe - ve) idx idx1 fr
                    (fadd (current_setpoint_m (setpoints k ax c pe)) (Finite cog))))
              (Finite (vel_integrator_current_m c))))) out,
           controller = integrator_update k
             (fst (velocity_control k ((setpoints k ax c pe)\<lparr>cogmap_current_m := cog\<rparr>) vg
                    (vel_demand k ax c pe - ve) idx idx1 fr
                    (fadd (current_setpoint_m (setpoints k ax c pe)) (Finite cog))))
             vig (vel_demand k ax c pe - ve)
             (fst (current_limiting (effective_current_lim ax)
             (fadd (snd (velocity_control k ((setpoints k ax c pe)\<lparr>cogmap_current_m := cog\<rparr>) vg
                    (vel_demand k ax c pe - ve) idx idx1 fr
                    (fadd (current_setpoint_m (setpoints k ax c pe)) (Finite cog))))
              (Finite (vel_integrator_current_m c))))),
           axis = ax\<rparr>"
    using update_normal [OF n g i l, of k pe out] u by simp
  have s: "fadd (snd (velocity_control k ((setpoints k ax c pe)\<lparr>cogmap_current_m := cog\<rparr>) vg
                    (vel_demand k ax c pe - ve) idx idx1 fr
                    (fadd (current_setpoint_m (setpoints k ax c pe)) (Finite cog))))
              (Finite (vel_integrator_current_m c)) = S"
    by (simp add: velocity_control_current setpoints_config mode_after_velocity S_def cog
        del: mode_rank.simps)
  show "output_cell r = map_option (\<lambda>old. snd (current_limiting (effective_current_lim ax) S)) out"
    by (subst r) (simp add: s)
  show "vel_integrator_current_m (controller r) =
      (if mode_rank (control_mode (config_m c)) < mode_rank CTRL_MODE_VELOCITY_CONTROL then 0
       else if fst (current_limiting (effective_current_lim ax) S)
         then vel_integrator_current_m c * 0.99
       else vel_integrator_current_m c + (vig * current_meas_period k) * (vel_demand k ax c pe - ve))"
    by (subst r) (simp add: s integrator_update_integrator velocity_control_integrator
        velocity_control_mode setpoints_config lt setpoints_integrator del: mode_rank.simps)
  show "error_m (controller r) = error_m c"
    by (subst r) (simp add: integrator_update_error velocity_control_error setpoints_error)
  show "axis r = ax" by (subst r) simp
  show "idx < length (cogmap (config_m c))" "idx1 < length (cogmap (config_m c))" by (rule b)+
qed

text \<open>
  C3. When \<open>update\<close> returns true and neither current limit test fires, the current
  written is the sum of the current setpoint after setpoint processing, the interpolated
  cogging value, the scheduled velocity gain times the velocity error
  \<open>vel_demand - vel_estimate\<close> when the mode is at least VELOCITY (else 0), and the
  integrator value from before the call.
\<close>

theorem update_unclamped_current_sum:
  assumes "update k ax c pe ve (Some old) = Some r"
    and "ret r"
    and "gain_scheduling ax (config_m c) = Some (vg, vig)"
    and "cogmap_index ax (config_m c) = Some (idx, idx1, fr)"
    and "S = fadd (fadd (fadd (current_setpoint_m (setpoints k ax c pe))
          (Finite ((1 - fr) * cogmap (config_m c) ! idx + fr * cogmap (config_m c) ! idx1)))
        (Finite (if mode_rank CTRL_MODE_VELOCITY_CONTROL \<le> mode_rank (control_mode (config_m c))
                 then vg * (vel_demand k ax c pe - ve) else 0)))
      (Finite (vel_integrator_current_m c))"
    and "\<not> fgt S (Finite (effective_current_lim ax))"
    and "\<not> flt S (Finite (- effective_current_lim ax))"
  shows "output_cell r = Some S"
proof -
  have "\<not> fst (current_limiting (effective_current_lim ax) S)"
    using assms(6,7) by (simp add: current_limiting_flag)
  then have "snd (current_limiting (effective_current_lim ax) S) = S"
    by (rule current_limiting_unlimited)
  then show ?thesis
    using update_normal_fields(1) [OF assms(1-4)] assms(5) by simp
qed

lemma example_gains: "gain_scheduling example_axis example_config = Some (1 / 2, 8)"
  by (simp add: gain_scheduling_def example_defs)

lemma example_index: "cogmap_index example_axis example_config = Some (1, 2, 1 / 2)"
  by (simp add: block_defs example_defs Let_def)

lemma example_setpoints: "setpoints k example_axis example_controller pe = example_controller"
  by (simp add: setpoints_def block_defs example_defs Let_def)

lemma example_vel_demand: "vel_demand k example_axis example_controller pe = 5"
  by (simp add: vel_demand_def block_defs example_defs Let_def)

lemma example_update_ok:
  "\<exists>r. update example_constants (example_axis\<lparr>effective_current_lim := L\<rparr>) example_controller
       0 4 out = Some r \<and> ret r"
  by (simp add: update_def block_defs example_defs Let_def split_beta)

theorem update_unclamped_current_sum_witness:
  "\<exists>r. update example_constants example_axis example_controller 0 4 (Some (Finite 0)) = Some r
     \<and> ret r
     \<and> gain_scheduling example_axis (config_m example_controller) = Some (1 / 2, 8)
     \<and> cogmap_index example_axis (config_m example_controller) = Some (1, 2, 1 / 2)
     \<and> \<not> fgt (Finite (79 / 40)) (Finite (effective_current_lim example_axis))
     \<and> \<not> flt (Finite (79 / 40)) (Finite (- effective_current_lim example_axis))
     \<and> output_cell r = Some (Finite (79 / 40))"
proof -
  obtain r where r:
    "update example_constants example_axis example_controller 0 4 (Some (Finite 0)) = Some r"
    "ret r"
    using example_update_ok [of "effective_current_lim example_axis" "Some (Finite 0)"] by auto
  have g: "gain_scheduling example_axis (config_m example_controller) = Some (1 / 2, 8)"
    using example_gains by (simp add: example_controller_def)
  have i: "cogmap_index example_axis (config_m example_controller) = Some (1, 2, 1 / 2)"
    using example_index by (simp add: example_controller_def)
  have s: "Finite (79 / 40) =
      fadd (fadd (fadd (current_setpoint_m (setpoints example_constants example_axis example_controller 0))
          (Finite ((1 - 1 / 2) * cogmap (config_m example_controller) ! 1
                     + 1 / 2 * cogmap (config_m example_controller) ! 2)))
        (Finite (if mode_rank CTRL_MODE_VELOCITY_CONTROL
                      \<le> mode_rank (control_mode (config_m example_controller))
                 then 1 / 2 * (vel_demand example_constants example_axis example_controller 0 - 4)
                 else 0)))
      (Finite (vel_integrator_current_m example_controller))"
    by (simp add: example_setpoints example_vel_demand) (simp add: example_defs)
  have l: "\<not> fgt (Finite (79 / 40)) (Finite (effective_current_lim example_axis))"
    "\<not> flt (Finite (79 / 40)) (Finite (- effective_current_lim example_axis))"
    by (simp_all add: example_defs)
  from update_unclamped_current_sum [OF r g i s l] r g i l show ?thesis by blast
qed

text \<open>
  C5. After a call of \<open>update\<close> that was not aborted by the overspeed check: with a mode
  of at least VELOCITY, the integrator is 0.99 times its value before the call when the
  current limit fired, and otherwise its value before the call plus the scheduled
  integrator gain times the cycle period times the velocity error; with a mode below
  VELOCITY the integrator is 0.
\<close>

theorem update_integrator:
  assumes "update k ax c pe ve out = Some r"
    and "ret r"
    and "gain_scheduling ax (config_m c) = Some (vg, vig)"
    and "cogmap_index ax (config_m c) = Some (idx, idx1, fr)"
    and "S = fadd (fadd (fadd (current_setpoint_m (setpoints k ax c pe))
          (Finite ((1 - fr) * cogmap (config_m c) ! idx + fr * cogmap (config_m c) ! idx1)))
        (Finite (if mode_rank CTRL_MODE_VELOCITY_CONTROL \<le> mode_rank (control_mode (config_m c))
                 then vg * (vel_demand k ax c pe - ve) else 0)))
      (Finite (vel_integrator_current_m c))"
  shows "(mode_rank CTRL_MODE_VELOCITY_CONTROL \<le> mode_rank (control_mode (config_m c))
            \<and> (fgt S (Finite (effective_current_lim ax))
                 \<or> flt S (Finite (- effective_current_lim ax)))
          \<longrightarrow> vel_integrator_current_m (controller r) = 0.99 * vel_integrator_current_m c)
       \<and> (mode_rank CTRL_MODE_VELOCITY_CONTROL \<le> mode_rank (control_mode (config_m c))
            \<and> \<not> (fgt S (Finite (effective_current_lim ax))
                   \<or> flt S (Finite (- effective_current_lim ax)))
          \<longrightarrow> vel_integrator_current_m (controller r) =
                vel_integrator_current_m c
                  + vig * current_meas_period k * (vel_demand k ax c pe - ve))
       \<and> (mode_rank (control_mode (config_m c)) < mode_rank CTRL_MODE_VELOCITY_CONTROL
          \<longrightarrow> vel_integrator_current_m (controller r) = 0)"
  using update_normal_fields(2) [OF assms(1-4)] assms(5)
  by (simp add: current_limiting_flag del: mode_rank.simps)

lemma example_current_mode:
  "setpoints k example_axis (with_mode CTRL_MODE_CURRENT_CONTROL example_controller) pe
     = with_mode CTRL_MODE_CURRENT_CONTROL example_controller"
  by (simp add: setpoints_def block_defs example_defs Let_def)

lemma example_current_update_ok:
  "\<exists>r. update example_constants example_axis
         (with_mode CTRL_MODE_CURRENT_CONTROL example_controller) 0 4 out = Some r \<and> ret r"
  by (simp add: update_def block_defs example_defs Let_def split_beta)

theorem update_integrator_witness:
  "(\<exists>r. update example_constants (example_axis\<lparr>effective_current_lim := 1\<rparr>) example_controller
          0 4 None = Some r
        \<and> ret r \<and> vel_integrator_current_m (controller r) = 99 / 1000)
   \<and> (\<exists>r. update example_constants example_axis example_controller 0 4 None = Some r
        \<and> ret r \<and> vel_integrator_current_m (controller r) = 101 / 1000)
   \<and> (\<exists>r. update example_constants example_axis
          (with_mode CTRL_MODE_CURRENT_CONTROL example_controller) 0 4 None = Some r
        \<and> ret r \<and> vel_integrator_current_m (controller r) = 0)"
proof -
  let ?k = example_constants and ?c = example_controller
  let ?cc = "with_mode CTRL_MODE_CURRENT_CONTROL example_controller"
  have g: "gain_scheduling ax' (config_m ?c) = Some (1 / 2, 8)"
    if "motor_type ax' = MOTOR_TYPE_PERMANENT_MAGNET" for ax'
    using that by (simp add: gain_scheduling_def example_defs)
  have i: "cogmap_index (example_axis\<lparr>effective_current_lim := L\<rparr>) (config_m ?c)
      = Some (1, 2, 1 / 2)" for L
    by (simp add: block_defs example_defs Let_def)
  have pm: "motor_type (example_axis\<lparr>effective_current_lim := L\<rparr>) = MOTOR_TYPE_PERMANENT_MAGNET" for L
    by (simp add: example_defs)
  have s: "Finite (79 / 40) =
      fadd (fadd (fadd
            (current_setpoint_m (setpoints ?k (example_axis\<lparr>effective_current_lim := L\<rparr>) ?c 0))
            (Finite ((1 - 1 / 2) * cogmap (config_m ?c) ! 1 + 1 / 2 * cogmap (config_m ?c) ! 2)))
          (Finite (if mode_rank CTRL_MODE_VELOCITY_CONTROL
                        \<le> mode_rank (control_mode (config_m ?c))
                   then 1 / 2 * (vel_demand ?k (example_axis\<lparr>effective_current_lim := L\<rparr>) ?c 0 - 4)
                   else 0)))
        (Finite (vel_integrator_current_m ?c))" for L
    by (simp add: setpoints_def vel_demand_def block_defs example_defs Let_def)
  have vd: "vel_demand ?k (example_axis\<lparr>effective_current_lim := L\<rparr>) ?c 0 = 5" for L
    by (simp add: vel_demand_def block_defs example_defs Let_def)
  have vals: "vel_integrator_current_m ?c = 1 / 10" "current_meas_period ?k = 1 / 8000"
    "mode_rank CTRL_MODE_VELOCITY_CONTROL \<le> mode_rank (control_mode (config_m ?c))"
    by (simp_all add: example_defs)
  obtain r1 where r1: "update ?k (example_axis\<lparr>effective_current_lim := 1\<rparr>) ?c 0 4 None = Some r1"
    "ret r1" using example_update_ok [of 1 None] by auto
  from update_integrator [OF r1 g [OF pm] i s, THEN conjunct1] vals
  have 1: "vel_integrator_current_m (controller r1) = 99 / 1000" by simp
  obtain r2 where r2: "update ?k (example_axis\<lparr>effective_current_lim := 10\<rparr>) ?c 0 4 None = Some r2"
    "ret r2" using example_update_ok [of 10 None] by auto
  from update_integrator [OF r2 g [OF pm] i s, THEN conjunct2, THEN conjunct1] vals
  have 2: "vel_integrator_current_m (controller r2) = 101 / 1000" by (simp add: vd)
  have same: "example_axis\<lparr>effective_current_lim := 10\<rparr> = example_axis"
    by (simp add: example_defs)
  obtain r3 where r3: "update ?k example_axis ?cc 0 4 None = Some r3" "ret r3"
    using example_current_update_ok [of None] by auto
  have g3: "gain_scheduling example_axis (config_m ?cc) = Some (1 / 2, 8)"
    by (simp add: gain_scheduling_def example_defs)
  have i3: "cogmap_index example_axis (config_m ?cc) = Some (1, 2, 1 / 2)"
    by (simp add: block_defs example_defs Let_def)
  have lt: "mode_rank (control_mode (config_m ?cc)) < mode_rank CTRL_MODE_VELOCITY_CONTROL"
    by simp
  from update_integrator [OF r3 g3 i3 refl, THEN conjunct2, THEN conjunct2] lt
  have 3: "vel_integrator_current_m (controller r3) = 0" by blast
  from r1 1 r2 2 r3 3 show ?thesis unfolding same by blast
qed

lemma word_or_and_same: "(x OR e) AND e = (e :: 32 word)"
  by (rule bit_eqI) (auto simp add: bit_and_iff bit_or_iff)

text \<open>
  C2. With a positive \<open>vel_limit_tolerance\<close>: if \<open>|vel_estimate|\<close> exceeds
  \<open>vel_limit_tolerance * vel_limit\<close>, \<open>update\<close> returns false, sets the overspeed bit in
  the controller's error word and the controller-failed bit in the axis' error word; if it
  does not (and the cycle stays inside the model: the cogging lookup is defined, with both
  reads inside the map, and the gain scheduling does not divide by zero), \<open>update\<close>
  returns true and raises nothing.
  With a tolerance of 0 no call of \<open>update\<close> returns false or raises an error.
\<close>

theorem update_overspeed_fault:
  "(0 < vel_limit_tolerance (config_m c)
      \<and> vel_limit_tolerance (config_m c) * vel_limit (config_m c) < \<bar>ve\<bar>
    \<longrightarrow> (\<exists>r. update k ax c pe ve out = Some r \<and> \<not> ret r
          \<and> error_m (controller r) = error_m c OR ERROR_OVERSPEED k
          \<and> error_m (controller r) AND ERROR_OVERSPEED k = ERROR_OVERSPEED k
          \<and> axis_error_m (axis r) = axis_error_m ax OR ERROR_CONTROLLER_FAILED k
          \<and> axis_error_m (axis r) AND ERROR_CONTROLLER_FAILED k = ERROR_CONTROLLER_FAILED k))
   \<and> (0 < vel_limit_tolerance (config_m c)
      \<and> \<bar>ve\<bar> \<le> vel_limit_tolerance (config_m c) * vel_limit (config_m c)
      \<and> cogmap_lookup_defined ax (config_m c) \<and> gain_scheduling ax (config_m c) \<noteq> None
    \<longrightarrow> (\<exists>r. update k ax c pe ve out = Some r \<and> ret r
          \<and> error_m (controller r) = error_m c \<and> axis r = ax))
   \<and> (vel_limit_tolerance (config_m c) = 0
    \<longrightarrow> (\<forall>r. update k ax c pe ve out = Some r
          \<longrightarrow> ret r \<and> error_m (controller r) = error_m c \<and> axis r = ax))"
proof -
  have 1: "\<exists>r. update k ax c pe ve out = Some r \<and> \<not> ret r
          \<and> error_m (controller r) = error_m c OR ERROR_OVERSPEED k
          \<and> error_m (controller r) AND ERROR_OVERSPEED k = ERROR_OVERSPEED k
          \<and> axis_error_m (axis r) = axis_error_m ax OR ERROR_CONTROLLER_FAILED k
          \<and> axis_error_m (axis r) AND ERROR_CONTROLLER_FAILED k = ERROR_CONTROLLER_FAILED k"
    if a: "0 < vel_limit_tolerance (config_m c)
      \<and> vel_limit_tolerance (config_m c) * vel_limit (config_m c) < \<bar>ve\<bar>"
  proof -
    from a have o: "overspeed (config_m c) (vel_limit (config_m c)) ve"
      by (simp add: overspeed_def)
    show ?thesis by (simp add: update_overspeed [OF o] word_or_and_same)
  qed
  have 2: "\<exists>r. update k ax c pe ve out = Some r \<and> ret r
          \<and> error_m (controller r) = error_m c \<and> axis r = ax"
    if a: "0 < vel_limit_tolerance (config_m c)
      \<and> \<bar>ve\<bar> \<le> vel_limit_tolerance (config_m c) * vel_limit (config_m c)
      \<and> cogmap_lookup_defined ax (config_m c) \<and> gain_scheduling ax (config_m c) \<noteq> None"
  proof -
    from a have n: "\<not> overspeed (config_m c) (vel_limit (config_m c)) ve"
      by (simp add: overspeed_def)
    from a obtain vg vig where g: "gain_scheduling ax (config_m c) = Some (vg, vig)" by auto
    from a cogmap_lookup_defined_lookup [of ax "config_m c"]
    obtain idx idx1 fr cog where i: "cogmap_index ax (config_m c) = Some (idx, idx1, fr)"
      and l: "cogmap_lookup (cogmap (config_m c)) idx idx1 fr = Some cog" by blast
    from update_normal [OF n g i l, of k pe out]
    obtain r where r: "update k ax c pe ve out = Some r" "ret r" by simp
    from update_normal_fields(3,4) [OF r g i] r show ?thesis by blast
  qed
  have 3: "ret r \<and> error_m (controller r) = error_m c \<and> axis r = ax"
    if z: "vel_limit_tolerance (config_m c) = 0" and u: "update k ax c pe ve out = Some r" for r
  proof -
    from z have n: "\<not> overspeed (config_m c) (vel_limit (config_m c)) ve"
      by (simp add: overspeed_def)
    from update_Some_cases [OF u] n obtain vg vig idx idx1 fr where t: "ret r"
      and g: "gain_scheduling ax (config_m c) = Some (vg, vig)"
      and i: "cogmap_index ax (config_m c) = Some (idx, idx1, fr)" by blast
    from update_normal_fields(3,4) [OF u t g i] t show ?thesis by simp
  qed
  from 1 2 3 show ?thesis by blast
qed

lemma example_wf: "cogmap_wf example_axis example_config"
  by (simp add: cogmap_wf_def example_defs)

lemma example_tolerance_zero_update_ok:
  "\<exists>r. update example_constants example_axis
         (example_controller\<lparr>config_m := example_config\<lparr>vel_limit_tolerance := 0\<rparr>\<rparr>)
         0 13 None = Some r"
  by (simp add: update_def block_defs example_defs Let_def split_beta)

theorem update_overspeed_fault_witness:
  "(0 < vel_limit_tolerance (config_m example_controller)
      \<and> vel_limit_tolerance (config_m example_controller) * vel_limit (config_m example_controller) < \<bar>13\<bar>
      \<and> (\<exists>r. update example_constants example_axis example_controller 0 13 None = Some r
            \<and> \<not> ret r \<and> error_m (controller r) = 1 \<and> axis_error_m (axis r) = 512))
   \<and> (\<bar>11\<bar> \<le> vel_limit_tolerance (config_m example_controller) * vel_limit (config_m example_controller)
      \<and> cogmap_lookup_defined example_axis (config_m example_controller)
      \<and> gain_scheduling example_axis (config_m example_controller) \<noteq> None
      \<and> (\<exists>r. update example_constants example_axis example_controller 0 11 None = Some r
            \<and> ret r \<and> error_m (controller r) = 0 \<and> axis r = example_axis))
   \<and> (vel_limit_tolerance
         (config_m (example_controller\<lparr>config_m := example_config\<lparr>vel_limit_tolerance := 0\<rparr>\<rparr>)) = 0
      \<and> (\<exists>r. update example_constants example_axis
                (example_controller\<lparr>config_m := example_config\<lparr>vel_limit_tolerance := 0\<rparr>\<rparr>)
                0 13 None = Some r
            \<and> ret r \<and> error_m (controller r) = 0 \<and> axis r = example_axis))"
proof -
  let ?z = "example_controller\<lparr>config_m := example_config\<lparr>vel_limit_tolerance := 0\<rparr>\<rparr>"
  have cfg: "config_m example_controller = example_config" by (simp add: example_controller_def)
  have a: "0 < vel_limit_tolerance (config_m example_controller)
      \<and> vel_limit_tolerance (config_m example_controller) * vel_limit (config_m example_controller) < \<bar>13\<bar>"
    by (simp add: example_defs)
  have b: "0 < vel_limit_tolerance (config_m example_controller)
      \<and> \<bar>11\<bar> \<le> vel_limit_tolerance (config_m example_controller) * vel_limit (config_m example_controller)
      \<and> cogmap_lookup_defined example_axis (config_m example_controller)
      \<and> gain_scheduling example_axis (config_m example_controller) \<noteq> None"
    using cogmap_wf_defined [OF example_wf] example_gains
    by (simp add: cfg) (simp add: example_defs)
  have e: "error_m example_controller = 0" "axis_error_m example_axis = 0"
    "ERROR_OVERSPEED example_constants = 1" "ERROR_CONTROLLER_FAILED example_constants = 512"
    by (simp_all add: example_defs)
  from update_overspeed_fault [of example_controller 13 example_constants example_axis 0 None,
      THEN conjunct1, THEN mp, OF a]
  have 1: "\<exists>r. update example_constants example_axis example_controller 0 13 None = Some r
            \<and> \<not> ret r \<and> error_m (controller r) = 1 \<and> axis_error_m (axis r) = 512"
    by (auto simp add: e)
  from update_overspeed_fault [of example_controller 11 example_constants example_axis 0 None,
      THEN conjunct2, THEN conjunct1, THEN mp, OF b]
  have 2: "\<exists>r. update example_constants example_axis example_controller 0 11 None = Some r
            \<and> ret r \<and> error_m (controller r) = 0 \<and> axis r = example_axis"
    by (auto simp add: e)
  have z: "vel_limit_tolerance (config_m ?z) = 0" by simp
  have ez: "error_m ?z = 0" by (simp add: example_defs)
  obtain r where r: "update example_constants example_axis ?z 0 13 None = Some r"
    using example_tolerance_zero_update_ok by blast
  from update_overspeed_fault [of ?z 13 example_constants example_axis 0 None,
      THEN conjunct2, THEN conjunct2, THEN mp, OF z, rule_format, OF r]
  have "ret r \<and> error_m (controller r) = 0 \<and> axis r = example_axis"
    unfolding ez .
  with z r have 3: "vel_limit_tolerance (config_m ?z) = 0
      \<and> (\<exists>r. update example_constants example_axis ?z 0 13 None = Some r
            \<and> ret r \<and> error_m (controller r) = 0 \<and> axis r = example_axis)"
    by blast
  from a b 1 2 3 show ?thesis by blast
qed

lemma integrator_update_setpoint_fields:
  "pos_setpoint_m (integrator_update k c vig v_err l) = pos_setpoint_m c"
  "vel_setpoint_m (integrator_update k c vig v_err l) = vel_setpoint_m c"
  "current_setpoint_m (integrator_update k c vig v_err l) = current_setpoint_m c"
  "config_m (integrator_update k c vig v_err l) = config_m c"
  by (simp_all add: integrator_update_def)

lemma velocity_control_setpoint_fields:
  "pos_setpoint_m (fst (velocity_control k c vg v_err idx idx1 fr Iq)) = pos_setpoint_m c"
  "vel_setpoint_m (fst (velocity_control k c vg v_err idx idx1 fr Iq)) = vel_setpoint_m c"
  "current_setpoint_m (fst (velocity_control k c vg v_err idx idx1 fr Iq)) = current_setpoint_m c"
  by (simp_all add: velocity_control_def Let_def)

lemma update_setpoint_fields:
  assumes "update k ax c pe ve out = Some r"
  shows "pos_setpoint_m (controller r) = pos_setpoint_m (setpoints k ax c pe)"
    and "vel_setpoint_m (controller r) = vel_setpoint_m (setpoints k ax c pe)"
    and "current_setpoint_m (controller r) = current_setpoint_m (setpoints k ax c pe)"
    and "control_mode (config_m (controller r)) = mode_after k ax c"
  using assms
  by (auto simp add: update_unfold Let_def integrator_update_setpoint_fields
      velocity_control_setpoint_fields velocity_control_mode setpoints_config
      split: if_splits option.splits)

lemma setpoints_trajectory:
  assumes "control_mode (config_m c) = CTRL_MODE_TRAJECTORY_CONTROL"
  shows "setpoints k ax c pe = fst (position_error ax (trajectory_control k ax c) pe)"
  using assms
  by (simp add: setpoints_def position_control_def velocity_ramp_def trajectory_control_def
      Let_def split_beta)

lemma position_error_setpoint_fields:
  "pos_setpoint_m (fst (position_error ax c pe)) =
     (if setpoints_in_cpr (config_m c)
      then fmodf_pos (pos_setpoint_m c) (real_of_int (encoder_cpr ax)) else pos_setpoint_m c)"
  "vel_setpoint_m (fst (position_error ax c pe)) = vel_setpoint_m c"
  "current_setpoint_m (fst (position_error ax c pe)) = current_setpoint_m c"
  by (simp_all add: position_error_def Let_def)

text \<open>
  C4 (as amended). In a call of \<open>update\<close> in TRAJECTORY mode, with the elapsed time the
  unsigned loop count delta times the cycle period: when it exceeds the planner's \<open>Tf\<close>,
  the trajectory block sets the mode to POSITION and the velocity and current setpoints to
  0 and leaves the position setpoint alone; otherwise it sets the position and velocity
  setpoints from the planner's sample and the current setpoint to the sampled acceleration
  times \<open>A_per_css\<close>. After the call the mode, the velocity setpoint and the current
  setpoint are those, and the position setpoint is that value when \<open>setpoints_in_cpr\<close>
  is false, and that value normalised modulo \<open>cpr\<close> by the position loop of the same call
  when it is true.
\<close>

theorem update_trajectory_setpoints:
  assumes "control_mode (config_m c) = CTRL_MODE_TRAJECTORY_CONTROL"
  shows "(trap_Tf_m ax < traj_elapsed k ax c \<longrightarrow>
            trajectory_control k ax c =
              c\<lparr>config_m := (config_m c)\<lparr>control_mode := CTRL_MODE_POSITION_CONTROL\<rparr>,
                vel_setpoint_m := 0, current_setpoint_m := Finite 0\<rparr>
          \<and> (\<forall>r. update k ax c pe ve out = Some r \<longrightarrow>
                control_mode (config_m (controller r)) = CTRL_MODE_POSITION_CONTROL
              \<and> vel_setpoint_m (controller r) = 0
              \<and> current_setpoint_m (controller r) = Finite 0
              \<and> pos_setpoint_m (controller r) =
                  (if setpoints_in_cpr (config_m c)
                   then fmodf_pos (pos_setpoint_m c) (real_of_int (encoder_cpr ax))
                   else pos_setpoint_m c)))
       \<and> (\<not> trap_Tf_m ax < traj_elapsed k ax c \<longrightarrow>
            trajectory_control k ax c =
              c\<lparr>pos_setpoint_m := Y (trap_eval ax (traj_elapsed k ax c)),
                vel_setpoint_m := Yd (trap_eval ax (traj_elapsed k ax c)),
                current_setpoint_m := Finite (Ydd (trap_eval ax (traj_elapsed k ax c)) * trap_A_per_css ax)\<rparr>
          \<and> (\<forall>r. update k ax c pe ve out = Some r \<longrightarrow>
                control_mode (config_m (controller r)) = CTRL_MODE_TRAJECTORY_CONTROL
              \<and> vel_setpoint_m (controller r) = Yd (trap_eval ax (traj_elapsed k ax c))
              \<and> current_setpoint_m (controller r) =
                  Finite (Ydd (trap_eval ax (traj_elapsed k ax c)) * trap_A_per_css ax)
              \<and> pos_setpoint_m (controller r) =
                  (if setpoints_in_cpr (config_m c)
                   then fmodf_pos (Y (trap_eval ax (traj_elapsed k ax c)))
                          (real_of_int (encoder_cpr ax))
                   else Y (trap_eval ax (traj_elapsed k ax c)))))"
proof -
  have fin: "trajectory_control k ax c =
      c\<lparr>config_m := (config_m c)\<lparr>control_mode := CTRL_MODE_POSITION_CONTROL\<rparr>,
        vel_setpoint_m := 0, current_setpoint_m := Finite 0\<rparr>"
    if "trap_Tf_m ax < traj_elapsed k ax c"
    using assms that by (simp add: trajectory_control_def Let_def)
  have run: "trajectory_control k ax c =
      c\<lparr>pos_setpoint_m := Y (trap_eval ax (traj_elapsed k ax c)),
        vel_setpoint_m := Yd (trap_eval ax (traj_elapsed k ax c)),
        current_setpoint_m := Finite (Ydd (trap_eval ax (traj_elapsed k ax c)) * trap_A_per_css ax)\<rparr>"
    if "\<not> trap_Tf_m ax < traj_elapsed k ax c"
    using assms that by (simp add: trajectory_control_def Let_def)
  have fields: "pos_setpoint_m (controller r) =
        pos_setpoint_m (fst (position_error ax (trajectory_control k ax c) pe))
      \<and> vel_setpoint_m (controller r) = vel_setpoint_m (trajectory_control k ax c)
      \<and> current_setpoint_m (controller r) = current_setpoint_m (trajectory_control k ax c)
      \<and> control_mode (config_m (controller r)) = control_mode (config_m (trajectory_control k ax c))"
    if "update k ax c pe ve out = Some r" for r
    using update_setpoint_fields [OF that]
    by (simp add: setpoints_trajectory [OF assms] position_error_setpoint_fields mode_after_def)
  show ?thesis
  proof (intro conjI impI)
    assume t: "trap_Tf_m ax < traj_elapsed k ax c"
    show "trajectory_control k ax c =
      c\<lparr>config_m := (config_m c)\<lparr>control_mode := CTRL_MODE_POSITION_CONTROL\<rparr>,
        vel_setpoint_m := 0, current_setpoint_m := Finite 0\<rparr>" by (rule fin [OF t])
    show "\<forall>r. update k ax c pe ve out = Some r \<longrightarrow>
                control_mode (config_m (controller r)) = CTRL_MODE_POSITION_CONTROL
              \<and> vel_setpoint_m (controller r) = 0
              \<and> current_setpoint_m (controller r) = Finite 0
              \<and> pos_setpoint_m (controller r) =
                  (if setpoints_in_cpr (config_m c)
                   then fmodf_pos (pos_setpoint_m c) (real_of_int (encoder_cpr ax))
                   else pos_setpoint_m c)"
      using fields by (simp add: fin [OF t] position_error_setpoint_fields)
  next
    assume t: "\<not> trap_Tf_m ax < traj_elapsed k ax c"
    show "trajectory_control k ax c =
      c\<lparr>pos_setpoint_m := Y (trap_eval ax (traj_elapsed k ax c)),
        vel_setpoint_m := Yd (trap_eval ax (traj_elapsed k ax c)),
        current_setpoint_m := Finite (Ydd (trap_eval ax (traj_elapsed k ax c)) * trap_A_per_css ax)\<rparr>"
      by (rule run [OF t])
    show "\<forall>r. update k ax c pe ve out = Some r \<longrightarrow>
                control_mode (config_m (controller r)) = CTRL_MODE_TRAJECTORY_CONTROL
              \<and> vel_setpoint_m (controller r) = Yd (trap_eval ax (traj_elapsed k ax c))
              \<and> current_setpoint_m (controller r) =
                  Finite (Ydd (trap_eval ax (traj_elapsed k ax c)) * trap_A_per_css ax)
              \<and> pos_setpoint_m (controller r) =
                  (if setpoints_in_cpr (config_m c)
                   then fmodf_pos (Y (trap_eval ax (traj_elapsed k ax c)))
                          (real_of_int (encoder_cpr ax))
                   else Y (trap_eval ax (traj_elapsed k ax c)))"
      using fields assms by (simp add: run [OF t] position_error_setpoint_fields)
  qed
qed

lemma example_trajectory_update_ok:
  "\<exists>r. update example_constants (example_axis\<lparr>loop_counter_m := 100\<rparr>) example_trajectory
         0 4 None = Some r"
  "\<exists>r. update example_constants (example_axis\<lparr>loop_counter_m := 40\<rparr>) example_trajectory
         0 4 None = Some r"
  by (simp_all add: update_def block_defs example_defs Let_def split_beta)

theorem update_trajectory_setpoints_witness:
  "control_mode (config_m example_trajectory) = CTRL_MODE_TRAJECTORY_CONTROL
   \<and> trap_Tf_m (example_axis\<lparr>loop_counter_m := 100\<rparr>)
       < traj_elapsed example_constants (example_axis\<lparr>loop_counter_m := 100\<rparr>) example_trajectory
   \<and> (\<exists>r. update example_constants (example_axis\<lparr>loop_counter_m := 100\<rparr>) example_trajectory
            0 4 None = Some r
         \<and> control_mode (config_m (controller r)) = CTRL_MODE_POSITION_CONTROL
         \<and> vel_setpoint_m (controller r) = 0 \<and> current_setpoint_m (controller r) = Finite 0
         \<and> pos_setpoint_m (controller r) = 1808)
   \<and> \<not> trap_Tf_m (example_axis\<lparr>loop_counter_m := 40\<rparr>)
       < traj_elapsed example_constants (example_axis\<lparr>loop_counter_m := 40\<rparr>) example_trajectory
   \<and> (\<exists>r. update example_constants (example_axis\<lparr>loop_counter_m := 40\<rparr>) example_trajectory
            0 4 None = Some r
         \<and> control_mode (config_m (controller r)) = CTRL_MODE_TRAJECTORY_CONTROL
         \<and> vel_setpoint_m (controller r) = 2 \<and> current_setpoint_m (controller r) = Finite (3 / 2)
         \<and> pos_setpoint_m (controller r) = 1808)"
proof -
  let ?k = example_constants and ?c = example_trajectory
  let ?a = "example_axis\<lparr>loop_counter_m := 100\<rparr>" and ?b = "example_axis\<lparr>loop_counter_m := 40\<rparr>"
  have m: "control_mode (config_m ?c) = CTRL_MODE_TRAJECTORY_CONTROL"
    by (simp add: example_defs)
  have ta: "trap_Tf_m ?a < traj_elapsed ?k ?a ?c"
    by (simp add: traj_elapsed_def example_defs)
  have tb: "\<not> trap_Tf_m ?b < traj_elapsed ?k ?b ?c"
    by (simp add: traj_elapsed_def example_defs)
  have v: "setpoints_in_cpr (config_m ?c)" "pos_setpoint_m ?c = 10000"
    "real_of_int (encoder_cpr example_axis) = 8192"
    "trap_eval example_axis t = \<lparr>Y = 10000, Yd = 2, Ydd = 3\<rparr>"
    "trap_A_per_css example_axis = 1 / 2"
    "fmodf_pos 10000 8192 = 1808" for t
    by (simp_all add: example_defs fmodf_pos_def)
  obtain ra where ra: "update ?k ?a ?c 0 4 None = Some ra"
    using example_trajectory_update_ok(1) by blast
  obtain rb where rb: "update ?k ?b ?c 0 4 None = Some rb"
    using example_trajectory_update_ok(2) by blast
  from update_trajectory_setpoints [OF m, of ?a ?k 0 4 None, THEN conjunct1, THEN mp, OF ta,
      THEN conjunct2, rule_format, OF ra]
  have 1: "control_mode (config_m (controller ra)) = CTRL_MODE_POSITION_CONTROL
         \<and> vel_setpoint_m (controller ra) = 0 \<and> current_setpoint_m (controller ra) = Finite 0
         \<and> pos_setpoint_m (controller ra) = 1808"
    by (simp add: v)
  from update_trajectory_setpoints [OF m, of ?b ?k 0 4 None, THEN conjunct2, THEN mp, OF tb,
      THEN conjunct2, rule_format, OF rb]
  have 2: "control_mode (config_m (controller rb)) = CTRL_MODE_TRAJECTORY_CONTROL
         \<and> vel_setpoint_m (controller rb) = 2 \<and> current_setpoint_m (controller rb) = Finite (3 / 2)
         \<and> pos_setpoint_m (controller rb) = 1808"
    by (simp add: v)
  from ra 1 have A: "\<exists>r. update ?k ?a ?c 0 4 None = Some r
         \<and> control_mode (config_m (controller r)) = CTRL_MODE_POSITION_CONTROL
         \<and> vel_setpoint_m (controller r) = 0 \<and> current_setpoint_m (controller r) = Finite 0
         \<and> pos_setpoint_m (controller r) = 1808" by blast
  from rb 2 have B: "\<exists>r. update ?k ?b ?c 0 4 None = Some r
         \<and> control_mode (config_m (controller r)) = CTRL_MODE_TRAJECTORY_CONTROL
         \<and> vel_setpoint_m (controller r) = 2 \<and> current_setpoint_m (controller r) = Finite (3 / 2)
         \<and> pos_setpoint_m (controller r) = 1808" by blast
  show ?thesis by (intro conjI m ta tb A B)
qed

text \<open>
  C4 as stated fails: with circular setpoints the position loop of the same call
  normalises the position setpoint, here from 10000 to 1808 with 8192 counts per
  revolution, although the trajectory is complete.
\<close>

theorem trajectory_pos_setpoint_counterexample:
  "control_mode (config_m example_trajectory) = CTRL_MODE_TRAJECTORY_CONTROL
   \<and> trap_Tf_m example_axis < traj_elapsed example_constants example_axis example_trajectory
   \<and> pos_setpoint_m example_trajectory = 10000
   \<and> map_option (pos_setpoint_m \<circ> controller)
        (update example_constants example_axis example_trajectory 0 4 None) = Some 1808"
  by (simp add: update_def block_defs example_defs Let_def)

lemma setpoints_current_mode:
  assumes "control_mode (config_m c) = CTRL_MODE_CURRENT_CONTROL"
  shows "setpoints k ax c pe = c"
  using assms
  by (simp add: setpoints_def position_control_def velocity_ramp_def trajectory_control_def Let_def)

lemma update_current_mode:
  assumes "control_mode (config_m c) = CTRL_MODE_CURRENT_CONTROL"
  shows "update k ax c pe ve out =
    (if overspeed (config_m c) (vel_limit (config_m c)) ve then
       Some \<lparr>ret = False, output_cell = out,
             controller = c\<lparr>error_m := error_m c OR ERROR_OVERSPEED k\<rparr>,
             axis = ax\<lparr>axis_error_m := axis_error_m ax OR ERROR_CONTROLLER_FAILED k\<rparr>\<rparr>
     else
       case gain_scheduling ax (config_m c) of
         None \<Rightarrow> None
       | Some g \<Rightarrow>
           (case cogmap_index ax (config_m c) of
              None \<Rightarrow> None
            | Some (idx, idx1, fr) \<Rightarrow>
                (case cogmap_lookup (cogmap (config_m c)) idx idx1 fr of
                   None \<Rightarrow> None
                 | Some cog \<Rightarrow>
                     Some \<lparr>ret = True,
                           output_cell = map_option
                             (\<lambda>old. snd (current_limiting (effective_current_lim ax)
                                (fadd (fadd (current_setpoint_m c) (Finite cog))
                                   (Finite (vel_integrator_current_m c))))) out,
                           controller = c\<lparr>cogmap_current_m := cog, vel_integrator_current_m := 0\<rparr>,
                           axis = ax\<rparr>)))"
  using assms
  by (simp add: update_unfold setpoints_current_mode velocity_control_def integrator_update_def
      Let_def split: option.splits)

lemma gain_scheduling_axis_error [simp]:
  "gain_scheduling (ax\<lparr>axis_error_m := e\<rparr>) cfg = gain_scheduling ax cfg"
  by (simp add: gain_scheduling_def Let_def)

lemma cogmap_index_axis_error [simp]:
  "cogmap_index (ax\<lparr>axis_error_m := e\<rparr>) cfg = cogmap_index ax cfg"
  by (simp add: cogmap_index_def Let_def split: option.splits)

lemma update_again_fixed:
  assumes "update k (axis r) (controller r) pe ve (output_cell r) = Some r"
  shows "update_again k pe ve n r = Some r"
  using assms by (induction n) simp_all

lemma current_mode_second_call:
  assumes m: "control_mode (config_m c) = CTRL_MODE_CURRENT_CONTROL"
    and u: "update k ax c pe ve out = Some r"
  shows "control_mode (config_m (controller r)) = CTRL_MODE_CURRENT_CONTROL"
    and "\<exists>r2. update k (axis r) (controller r) pe ve (output_cell r) = Some r2
           \<and> ret r2 = ret r \<and> controller r2 = controller r \<and> axis r2 = axis r
           \<and> (vel_integrator_current_m c = 0 \<longrightarrow> r2 = r)"
    and "vel_integrator_current_m c = 0 \<longrightarrow> vel_integrator_current_m (controller r) = 0"
    and "ret r \<longrightarrow> vel_integrator_current_m (controller r) = 0"
proof -
  show m': "control_mode (config_m (controller r)) = CTRL_MODE_CURRENT_CONTROL"
    using u m unfolding update_current_mode [OF m]
    by (auto split: if_splits option.splits)
  show "\<exists>r2. update k (axis r) (controller r) pe ve (output_cell r) = Some r2
           \<and> ret r2 = ret r \<and> controller r2 = controller r \<and> axis r2 = axis r
           \<and> (vel_integrator_current_m c = 0 \<longrightarrow> r2 = r)"
    unfolding update_current_mode [OF m']
    using u unfolding update_current_mode [OF m]
    by (auto simp add: option.map_comp comp_def split: if_splits option.splits)
  show "vel_integrator_current_m c = 0 \<longrightarrow> vel_integrator_current_m (controller r) = 0"
    using u unfolding update_current_mode [OF m]
    by (auto split: if_splits option.splits)
  show "ret r \<longrightarrow> vel_integrator_current_m (controller r) = 0"
    using u unfolding update_current_mode [OF m]
    by (auto split: if_splits option.splits)
qed

text \<open>
  C7 (as amended). In CURRENT mode a call of \<open>update\<close> that is not aborted sets the
  velocity integrator to 0, after adding its old value to the current. Calling \<open>update\<close>
  again with the same estimates and the same collaborator values returns the same boolean
  and leaves the same controller and axis, and every call after the second leaves
  everything, the returned boolean and the current written included, as the second call
  left it. When the integrator is 0 before the first call, the first call already gives
  that result and leaves the integrator at 0.
\<close>

theorem current_mode_repeated_update:
  assumes "control_mode (config_m c) = CTRL_MODE_CURRENT_CONTROL"
    and "update k ax c pe ve out = Some r"
  shows "\<exists>r2. update k (axis r) (controller r) pe ve (output_cell r) = Some r2
           \<and> ret r2 = ret r \<and> controller r2 = controller r \<and> axis r2 = axis r
           \<and> (\<forall>n. update_again k pe ve n r2 = Some r2)
           \<and> (vel_integrator_current_m c = 0
                \<longrightarrow> r2 = r \<and> vel_integrator_current_m (controller r) = 0)
           \<and> (ret r \<longrightarrow> vel_integrator_current_m (controller r) = 0)"
proof -
  from current_mode_second_call(2) [OF assms]
  obtain r2 where r2: "update k (axis r) (controller r) pe ve (output_cell r) = Some r2"
    "ret r2 = ret r" "controller r2 = controller r" "axis r2 = axis r"
    "vel_integrator_current_m c = 0 \<longrightarrow> r2 = r" by blast
  have m1: "control_mode (config_m (controller r)) = CTRL_MODE_CURRENT_CONTROL"
    by (rule current_mode_second_call(1) [OF assms])
  have z: "vel_integrator_current_m (controller r) = 0 \<or> \<not> ret r"
    using current_mode_second_call(4) [OF assms] by blast
  have m2: "control_mode (config_m (controller r2)) = CTRL_MODE_CURRENT_CONTROL"
    by (rule current_mode_second_call(1) [OF m1 r2(1)])
  have fp: "update k (axis r2) (controller r2) pe ve (output_cell r2) = Some r2"
  proof (cases "ret r")
    case True
    with z have "vel_integrator_current_m (controller r) = 0" by simp
    from current_mode_second_call(2) [OF m1 r2(1)] this
    show ?thesis by auto
  next
    case False
    then have o: "overspeed (config_m c) (vel_limit (config_m c)) ve"
      using update_Some_cases [OF assms(2)] by blast
    have c1: "config_m (controller r) = config_m c"
      using assms(2) unfolding update_overspeed [OF o]
      by (auto simp add: setpoints_current_mode [OF assms(1)])
    from r2(1) have "r2 = r"
      using assms(2) o unfolding update_current_mode [OF m1] update_current_mode [OF assms(1)] c1
      by auto
    with r2(1) show ?thesis by simp
  qed
  have "\<forall>n. update_again k pe ve n r2 = Some r2"
    using update_again_fixed [OF fp] by blast
  with r2 current_mode_second_call(3,4) [OF assms] show ?thesis by blast
qed

theorem current_mode_repeated_update_witness:
  "control_mode (config_m (with_mode CTRL_MODE_CURRENT_CONTROL example_controller))
     = CTRL_MODE_CURRENT_CONTROL
   \<and> (\<exists>r r2. update example_constants example_axis
                (with_mode CTRL_MODE_CURRENT_CONTROL example_controller) 0 4 (Some (Finite 0)) = Some r
          \<and> ret r
          \<and> update example_constants (axis r) (controller r) 0 4 (output_cell r) = Some r2
          \<and> ret r2 = ret r \<and> controller r2 = controller r \<and> axis r2 = axis r
          \<and> update_again example_constants 0 4 3 r2 = Some r2
          \<and> vel_integrator_current_m (controller r) = 0)"
proof -
  let ?c = "with_mode CTRL_MODE_CURRENT_CONTROL example_controller"
  have m: "control_mode (config_m ?c) = CTRL_MODE_CURRENT_CONTROL" by simp
  obtain r where r: "update example_constants example_axis ?c 0 4 (Some (Finite 0)) = Some r" "ret r"
    using example_current_update_ok [of "Some (Finite 0)"] by blast
  from current_mode_repeated_update [OF m r(1)] r
  show ?thesis by (intro conjI m) blast
qed

text \<open>
  C7 as stated fails: in CURRENT mode with an integrator of 1/10 left over, the first call
  writes the current 59/40 and resets the integrator to 0, and the second call with the
  same inputs writes 11/8.
\<close>

theorem current_mode_idempotence_counterexample:
  "control_mode (config_m (with_mode CTRL_MODE_CURRENT_CONTROL example_controller))
     = CTRL_MODE_CURRENT_CONTROL
   \<and> vel_integrator_current_m (with_mode CTRL_MODE_CURRENT_CONTROL example_controller) = 1 / 10
   \<and> map_option output_cell
        (update example_constants example_axis
           (with_mode CTRL_MODE_CURRENT_CONTROL example_controller) 0 4 (Some (Finite 0)))
       = Some (Some (Finite (59 / 40)))
   \<and> map_option (vel_integrator_current_m \<circ> controller)
        (update example_constants example_axis
           (with_mode CTRL_MODE_CURRENT_CONTROL example_controller) 0 4 (Some (Finite 0)))
       = Some 0
   \<and> map_option output_cell
        (Option.bind
           (update example_constants example_axis
              (with_mode CTRL_MODE_CURRENT_CONTROL example_controller) 0 4 (Some (Finite 0)))
           (update_again example_constants 0 4 (Suc 0)))
       = Some (Some (Finite (11 / 8)))"
  by (simp add: update_def block_defs example_defs Let_def)

lemma clamp_bidirf_bound: "0 \<le> mx \<Longrightarrow> \<bar>clamp_bidirf x mx\<bar> \<le> mx"
  by (auto simp add: clamp_bidirf_def)

lemma clamp_bidirf_id: "\<bar>x\<bar> \<le> mx \<Longrightarrow> clamp_bidirf x mx = x"
  by (auto simp add: clamp_bidirf_def)

lemma clamp_bidirf_up: "0 \<le> mx \<Longrightarrow> y \<le> x \<Longrightarrow> y \<le> mx \<Longrightarrow> y \<le> clamp_bidirf x mx"
  by (auto simp add: clamp_bidirf_def)

lemma clamp_bidirf_down: "0 \<le> mx \<Longrightarrow> x \<le> y \<Longrightarrow> - mx \<le> y \<Longrightarrow> clamp_bidirf x mx \<le> y"
  by (auto simp add: clamp_bidirf_def)

lemma cogmap_adapt_length [simp]:
  "length (cogmap_adapt m idx idx1 fr corr mx) = length m"
  by (simp add: cogmap_adapt_def Let_def)

lemma cogmap_adapt_other:
  "j \<noteq> idx \<Longrightarrow> j \<noteq> idx1 \<Longrightarrow> cogmap_adapt m idx idx1 fr corr mx ! j = m ! j"
  by (simp add: cogmap_adapt_def Let_def)

lemma cogmap_adapt_distinct:
  assumes "idx \<noteq> idx1" and "idx < length m" and "idx1 < length m"
  shows "cogmap_adapt m idx idx1 fr corr mx ! idx = clamp_bidirf (m ! idx + (1 - fr) * corr) mx"
    and "cogmap_adapt m idx idx1 fr corr mx ! idx1 = clamp_bidirf (m ! idx1 + fr * corr) mx"
  using assms by (simp_all add: cogmap_adapt_def Let_def)

lemma cogmap_adapt_same:
  assumes "idx < length m"
  shows "cogmap_adapt m idx idx fr corr mx ! idx =
           clamp_bidirf (clamp_bidirf (m ! idx + (1 - fr) * corr + fr * corr) mx) mx"
  using assms by (simp add: cogmap_adapt_def Let_def)

lemma cogmap_adapt_bound:
  assumes "0 \<le> mx" and "idx < length m" and "idx1 < length m"
  shows "\<bar>cogmap_adapt m idx idx1 fr corr mx ! idx\<bar> \<le> mx"
    and "\<bar>cogmap_adapt m idx idx1 fr corr mx ! idx1\<bar> \<le> mx"
proof -
  show "\<bar>cogmap_adapt m idx idx1 fr corr mx ! idx\<bar> \<le> mx"
  proof (cases "idx = idx1")
    case True
    then show ?thesis using assms by (simp add: cogmap_adapt_same clamp_bidirf_bound)
  next
    case False
    then show ?thesis using assms by (simp add: cogmap_adapt_distinct clamp_bidirf_bound)
  qed
  show "\<bar>cogmap_adapt m idx idx1 fr corr mx ! idx1\<bar> \<le> mx"
  proof (cases "idx = idx1")
    case True
    then show ?thesis using assms by (simp add: cogmap_adapt_same clamp_bidirf_bound)
  next
    case False
    then show ?thesis using assms by (simp add: cogmap_adapt_distinct clamp_bidirf_bound)
  qed
qed

lemma cogmap_adapt_up:
  assumes mx: "0 \<le> mx" and b: "idx < length m" "idx1 < length m"
    and f: "0 \<le> fr" "fr \<le> 1" and c: "0 \<le> corr"
    and i: "i = idx \<or> i = idx1" and le: "m ! i \<le> mx"
  shows "m ! i \<le> cogmap_adapt m idx idx1 fr corr mx ! i"
proof -
  have w: "0 \<le> (1 - fr) * corr" "0 \<le> fr * corr" using f c by simp_all
  show ?thesis
  proof (cases "idx = idx1")
    case True
    with i have ii: "i = idx" by simp
    have "m ! idx \<le> clamp_bidirf (m ! idx + (1 - fr) * corr + fr * corr) mx"
      using w le ii by (intro clamp_bidirf_up [OF mx]) simp_all
    then have "m ! idx \<le> clamp_bidirf (clamp_bidirf (m ! idx + (1 - fr) * corr + fr * corr) mx) mx"
      using w le ii by (intro clamp_bidirf_up [OF mx]) simp_all
    then show ?thesis using True ii b by (simp add: cogmap_adapt_same)
  next
    case False
    from i show ?thesis
    proof
      assume "i = idx"
      then show ?thesis using False b w le
        by (simp add: cogmap_adapt_distinct clamp_bidirf_up [OF mx])
    next
      assume "i = idx1"
      then show ?thesis using False b w le
        by (simp add: cogmap_adapt_distinct clamp_bidirf_up [OF mx])
    qed
  qed
qed

lemma cogmap_adapt_down:
  assumes mx: "0 \<le> mx" and b: "idx < length m" "idx1 < length m"
    and f: "0 \<le> fr" "fr \<le> 1" and c: "corr \<le> 0"
    and i: "i = idx \<or> i = idx1" and le: "- mx \<le> m ! i"
  shows "cogmap_adapt m idx idx1 fr corr mx ! i \<le> m ! i"
proof -
  have w: "(1 - fr) * corr \<le> 0" "fr * corr \<le> 0"
    using f c by (simp_all add: mult_nonneg_nonpos)
  show ?thesis
  proof (cases "idx = idx1")
    case True
    with i have ii: "i = idx" by simp
    have "clamp_bidirf (m ! idx + (1 - fr) * corr + fr * corr) mx \<le> m ! idx"
      using w le ii by (intro clamp_bidirf_down [OF mx]) simp_all
    then have "clamp_bidirf (clamp_bidirf (m ! idx + (1 - fr) * corr + fr * corr) mx) mx \<le> m ! idx"
      using w le ii by (intro clamp_bidirf_down [OF mx]) simp_all
    then show ?thesis using True ii b by (simp add: cogmap_adapt_same)
  next
    case False
    from i show ?thesis
    proof
      assume "i = idx"
      then show ?thesis using False b w le
        by (simp add: cogmap_adapt_distinct clamp_bidirf_down [OF mx])
    next
      assume "i = idx1"
      then show ?thesis using False b w le
        by (simp add: cogmap_adapt_distinct clamp_bidirf_down [OF mx])
    qed
  qed
qed

lemma cogmap_adapt_seq_length [simp]:
  "length (cogmap_adapt_seq m idx idx1 fr mx corrs) = length m"
  by (induction corrs arbitrary: m) simp_all

lemma cogmap_adapt_seq_snoc:
  "cogmap_adapt_seq m idx idx1 fr mx (corrs @ [corr]) =
     cogmap_adapt (cogmap_adapt_seq m idx idx1 fr mx corrs) idx idx1 fr corr mx"
  by (induction corrs arbitrary: m) simp_all

lemma cogmap_adapt_seq_bound:
  assumes "0 \<le> mx" and "idx < length m" and "idx1 < length m"
    and "\<bar>m ! idx\<bar> \<le> mx" and "\<bar>m ! idx1\<bar> \<le> mx"
  shows "\<bar>cogmap_adapt_seq m idx idx1 fr mx corrs ! idx\<bar> \<le> mx
       \<and> \<bar>cogmap_adapt_seq m idx idx1 fr mx corrs ! idx1\<bar> \<le> mx"
  using assms
proof (induction corrs arbitrary: m)
  case Nil
  then show ?case by simp
next
  case (Cons corr corrs)
  show ?case
    using Cons.prems cogmap_adapt_bound [of mx idx m idx1 fr corr]
    by (simp add: Cons.IH)
qed

lemma velocity_control_cogmap:
  "cogmap (config_m (fst (velocity_control k c vg v_err idx idx1 fr Iq))) =
     (if mode_rank CTRL_MODE_VELOCITY_CONTROL \<le> mode_rank (control_mode (config_m c))
      then cogmap_adapt (cogmap (config_m c)) idx idx1 fr
             (cogmap_integrator_gain (config_m c) * v_err * current_meas_period k)
             (cogmap_max_current (config_m c))
      else cogmap (config_m c))"
  by (simp add: velocity_control_def Let_def)

lemma update_cogmap:
  assumes u: "update k ax c pe ve out = Some r" and t: "ret r"
    and i: "cogmap_index ax (config_m c) = Some (idx, idx1, fr)"
  shows "cogmap (config_m (controller r)) =
     (if mode_rank CTRL_MODE_VELOCITY_CONTROL \<le> mode_rank (control_mode (config_m c))
      then cogmap_adapt (cogmap (config_m c)) idx idx1 fr
             (cogmap_integrator_gain (config_m c) * (vel_demand k ax c pe - ve)
                * current_meas_period k)
             (cogmap_max_current (config_m c))
      else cogmap (config_m c))"
proof -
  from update_Some_cases [OF u] t i
  obtain vg vig cog where n: "\<not> overspeed (config_m c) (vel_limit (config_m c)) ve"
    and g: "gain_scheduling ax (config_m c) = Some (vg, vig)"
    and l: "cogmap_lookup (cogmap (config_m c)) idx idx1 fr = Some cog"
    by auto
  have "controller r = integrator_update k
             (fst (velocity_control k ((setpoints k ax c pe)\<lparr>cogmap_current_m := cog\<rparr>) vg
                    (vel_demand k ax c pe - ve) idx idx1 fr
                    (fadd (current_setpoint_m (setpoints k ax c pe)) (Finite cog))))
             vig (vel_demand k ax c pe - ve)
             (fst (current_limiting (effective_current_lim ax)
             (fadd (snd (velocity_control k ((setpoints k ax c pe)\<lparr>cogmap_current_m := cog\<rparr>) vg
                    (vel_demand k ax c pe - ve) idx idx1 fr
                    (fadd (current_setpoint_m (setpoints k ax c pe)) (Finite cog))))
              (Finite (vel_integrator_current_m c)))))"
    using update_normal [OF n g i l, of k pe out] u by auto
  then show ?thesis
    by (simp add: integrator_update_setpoint_fields velocity_control_cogmap setpoints_config
        mode_after_velocity del: mode_rank.simps)
qed

text \<open>
  C8. After a call of \<open>update\<close> with a mode of at least VELOCITY that was not aborted, with
  \<open>cogmap_max_current \<ge> 0\<close>: the two bracketing entries of the cogging map are at most
  \<open>cogmap_max_current\<close> in absolute value, every other entry is unchanged, and before the
  clamp the entry at \<open>idx\<close> received \<open>(1 - frac)\<close> times the correction and the entry at
  \<open>idx1\<close> received \<open>frac\<close> times it, the weights of the lookup (when the two indices are
  the same entry it received both). With the encoder count in one revolution: a correction
  of constant sign moves both entries monotonically (up for a correction \<open>\<ge> 0\<close> from
  entries at most the bound, down for a correction \<open>\<le> 0\<close> from entries at least minus the
  bound), and over any sequence of further cycles at the same indices with corrections of
  one sign each cycle moves the two entries in that direction, never beyond the bound.
\<close>

theorem update_cogmap_adaptation:
  assumes "update k ax c pe ve out = Some r"
    and "ret r"
    and "mode_rank CTRL_MODE_VELOCITY_CONTROL \<le> mode_rank (control_mode (config_m c))"
    and "0 \<le> cogmap_max_current (config_m c)"
    and "cogmap_index ax (config_m c) = Some (idx, idx1, fr)"
    and "m = cogmap (config_m c)"
    and "m1 = cogmap (config_m (controller r))"
    and "mx = cogmap_max_current (config_m c)"
    and "corr = cogmap_integrator_gain (config_m c) * (vel_demand k ax c pe - ve)
                  * current_meas_period k"
  shows "\<bar>m1 ! idx\<bar> \<le> mx \<and> \<bar>m1 ! idx1\<bar> \<le> mx
       \<and> length m1 = length m
       \<and> (\<forall>j. j \<noteq> idx \<and> j \<noteq> idx1 \<longrightarrow> m1 ! j = m ! j)
       \<and> (idx \<noteq> idx1 \<longrightarrow>
            m1 ! idx = clamp_bidirf (m ! idx + (1 - fr) * corr) mx
          \<and> m1 ! idx1 = clamp_bidirf (m ! idx1 + fr * corr) mx)
       \<and> (idx = idx1 \<longrightarrow>
            m1 ! idx = clamp_bidirf (m ! idx + (1 - fr) * corr + fr * corr) mx)
       \<and> (0 \<le> encoder_count_in_cpr_m ax \<and> encoder_count_in_cpr_m ax < encoder_cpr ax \<longrightarrow>
            (0 \<le> corr \<and> m ! idx \<le> mx \<and> m ! idx1 \<le> mx
               \<longrightarrow> m ! idx \<le> m1 ! idx \<and> m ! idx1 \<le> m1 ! idx1)
          \<and> (corr \<le> 0 \<and> - mx \<le> m ! idx \<and> - mx \<le> m ! idx1
               \<longrightarrow> m1 ! idx \<le> m ! idx \<and> m1 ! idx1 \<le> m ! idx1)
          \<and> (\<forall>corrs corr1. (\<forall>x \<in> set (corrs @ [corr1]). 0 \<le> x) \<longrightarrow>
                cogmap_adapt_seq m1 idx idx1 fr mx corrs ! idx
                  \<le> cogmap_adapt_seq m1 idx idx1 fr mx (corrs @ [corr1]) ! idx
              \<and> cogmap_adapt_seq m1 idx idx1 fr mx (corrs @ [corr1]) ! idx \<le> mx
              \<and> cogmap_adapt_seq m1 idx idx1 fr mx corrs ! idx1
                  \<le> cogmap_adapt_seq m1 idx idx1 fr mx (corrs @ [corr1]) ! idx1
              \<and> cogmap_adapt_seq m1 idx idx1 fr mx (corrs @ [corr1]) ! idx1 \<le> mx)
          \<and> (\<forall>corrs corr1. (\<forall>x \<in> set (corrs @ [corr1]). x \<le> 0) \<longrightarrow>
                cogmap_adapt_seq m1 idx idx1 fr mx (corrs @ [corr1]) ! idx
                  \<le> cogmap_adapt_seq m1 idx idx1 fr mx corrs ! idx
              \<and> - mx \<le> cogmap_adapt_seq m1 idx idx1 fr mx (corrs @ [corr1]) ! idx
              \<and> cogmap_adapt_seq m1 idx idx1 fr mx (corrs @ [corr1]) ! idx1
                  \<le> cogmap_adapt_seq m1 idx idx1 fr mx corrs ! idx1
              \<and> - mx \<le> cogmap_adapt_seq m1 idx idx1 fr mx (corrs @ [corr1]) ! idx1))"
proof -
  have mx: "0 \<le> mx" using assms(4,8) by simp
  obtain vg vig where g: "gain_scheduling ax (config_m c) = Some (vg, vig)"
    using update_Some_cases [OF assms(1)] assms(2) by blast
  have b: "idx < length m" "idx1 < length m"
    using update_normal_fields(5,6) [OF assms(1,2) g assms(5)] assms(6) by simp_all
  have m1: "m1 = cogmap_adapt m idx idx1 fr corr mx"
    using update_cogmap [OF assms(1,2,5)] assms(3,6,7,8,9) by simp
  have bound: "\<bar>m1 ! idx\<bar> \<le> mx" "\<bar>m1 ! idx1\<bar> \<le> mx"
    unfolding m1 by (rule cogmap_adapt_bound [OF mx b])+
  have len: "length m1 = length m" unfolding m1 by simp
  have other: "\<forall>j. j \<noteq> idx \<and> j \<noteq> idx1 \<longrightarrow> m1 ! j = m ! j"
    unfolding m1 by (simp add: cogmap_adapt_other)
  have distinct: "idx \<noteq> idx1 \<longrightarrow>
            m1 ! idx = clamp_bidirf (m ! idx + (1 - fr) * corr) mx
          \<and> m1 ! idx1 = clamp_bidirf (m ! idx1 + fr * corr) mx"
    unfolding m1 using b by (simp add: cogmap_adapt_distinct)
  have same: "idx = idx1 \<longrightarrow>
            m1 ! idx = clamp_bidirf (m ! idx + (1 - fr) * corr + fr * corr) mx"
    unfolding m1 using b mx
    by (simp add: cogmap_adapt_same clamp_bidirf_id clamp_bidirf_bound)
  have mono: "(0 \<le> corr \<and> m ! idx \<le> mx \<and> m ! idx1 \<le> mx
               \<longrightarrow> m ! idx \<le> m1 ! idx \<and> m ! idx1 \<le> m1 ! idx1)
          \<and> (corr \<le> 0 \<and> - mx \<le> m ! idx \<and> - mx \<le> m ! idx1
               \<longrightarrow> m1 ! idx \<le> m ! idx \<and> m1 ! idx1 \<le> m ! idx1)
          \<and> (\<forall>corrs corr1. (\<forall>x \<in> set (corrs @ [corr1]). 0 \<le> x) \<longrightarrow>
                cogmap_adapt_seq m1 idx idx1 fr mx corrs ! idx
                  \<le> cogmap_adapt_seq m1 idx idx1 fr mx (corrs @ [corr1]) ! idx
              \<and> cogmap_adapt_seq m1 idx idx1 fr mx (corrs @ [corr1]) ! idx \<le> mx
              \<and> cogmap_adapt_seq m1 idx idx1 fr mx corrs ! idx1
                  \<le> cogmap_adapt_seq m1 idx idx1 fr mx (corrs @ [corr1]) ! idx1
              \<and> cogmap_adapt_seq m1 idx idx1 fr mx (corrs @ [corr1]) ! idx1 \<le> mx)
          \<and> (\<forall>corrs corr1. (\<forall>x \<in> set (corrs @ [corr1]). x \<le> 0) \<longrightarrow>
                cogmap_adapt_seq m1 idx idx1 fr mx (corrs @ [corr1]) ! idx
                  \<le> cogmap_adapt_seq m1 idx idx1 fr mx corrs ! idx
              \<and> - mx \<le> cogmap_adapt_seq m1 idx idx1 fr mx (corrs @ [corr1]) ! idx
              \<and> cogmap_adapt_seq m1 idx idx1 fr mx (corrs @ [corr1]) ! idx1
                  \<le> cogmap_adapt_seq m1 idx idx1 fr mx corrs ! idx1
              \<and> - mx \<le> cogmap_adapt_seq m1 idx idx1 fr mx (corrs @ [corr1]) ! idx1)"
    if cnt: "0 \<le> encoder_count_in_cpr_m ax \<and> encoder_count_in_cpr_m ax < encoder_cpr ax"
  proof -
    have "0 \<le> encoder_cpr ax" using cnt by simp
    from cogmap_index_frac [OF assms(5) conjunct1 [OF cnt] this]
    have f: "0 \<le> fr" "fr \<le> 1" by simp_all
    have b1: "idx < length m1" "idx1 < length m1" using b len by simp_all
    have up: "m ! idx \<le> m1 ! idx \<and> m ! idx1 \<le> m1 ! idx1"
      if "0 \<le> corr \<and> m ! idx \<le> mx \<and> m ! idx1 \<le> mx"
      unfolding m1 using that cogmap_adapt_up [OF mx b f, of corr] by blast
    have down: "m1 ! idx \<le> m ! idx \<and> m1 ! idx1 \<le> m ! idx1"
      if "corr \<le> 0 \<and> - mx \<le> m ! idx \<and> - mx \<le> m ! idx1"
      unfolding m1 using that cogmap_adapt_down [OF mx b f, of corr] by blast
    have sb: "\<bar>cogmap_adapt_seq m1 idx idx1 fr mx corrs ! idx\<bar> \<le> mx
       \<and> \<bar>cogmap_adapt_seq m1 idx idx1 fr mx corrs ! idx1\<bar> \<le> mx" for corrs
      by (rule cogmap_adapt_seq_bound [OF mx b1 bound])
    have sl: "idx < length (cogmap_adapt_seq m1 idx idx1 fr mx corrs)"
      "idx1 < length (cogmap_adapt_seq m1 idx idx1 fr mx corrs)" for corrs
      using b1 by simp_all
    have sup: "cogmap_adapt_seq m1 idx idx1 fr mx corrs ! idx
                  \<le> cogmap_adapt_seq m1 idx idx1 fr mx (corrs @ [corr1]) ! idx
              \<and> cogmap_adapt_seq m1 idx idx1 fr mx (corrs @ [corr1]) ! idx \<le> mx
              \<and> cogmap_adapt_seq m1 idx idx1 fr mx corrs ! idx1
                  \<le> cogmap_adapt_seq m1 idx idx1 fr mx (corrs @ [corr1]) ! idx1
              \<and> cogmap_adapt_seq m1 idx idx1 fr mx (corrs @ [corr1]) ! idx1 \<le> mx"
      if "\<forall>x \<in> set (corrs @ [corr1]). 0 \<le> x" for corrs corr1
    proof -
      from that have c1: "0 \<le> corr1" by simp
      from sb [of corrs] have le: "cogmap_adapt_seq m1 idx idx1 fr mx corrs ! idx \<le> mx"
        "cogmap_adapt_seq m1 idx idx1 fr mx corrs ! idx1 \<le> mx" by auto
      from sb [of "corrs @ [corr1]"]
      have le1: "cogmap_adapt_seq m1 idx idx1 fr mx (corrs @ [corr1]) ! idx \<le> mx"
        "cogmap_adapt_seq m1 idx idx1 fr mx (corrs @ [corr1]) ! idx1 \<le> mx" by auto
      from cogmap_adapt_up [OF mx sl [of corrs] f c1, where i = idx] le(1)
        cogmap_adapt_up [OF mx sl [of corrs] f c1, where i = idx1] le(2) le1
      show ?thesis by (simp add: cogmap_adapt_seq_snoc)
    qed
    have sdown: "cogmap_adapt_seq m1 idx idx1 fr mx (corrs @ [corr1]) ! idx
                  \<le> cogmap_adapt_seq m1 idx idx1 fr mx corrs ! idx
              \<and> - mx \<le> cogmap_adapt_seq m1 idx idx1 fr mx (corrs @ [corr1]) ! idx
              \<and> cogmap_adapt_seq m1 idx idx1 fr mx (corrs @ [corr1]) ! idx1
                  \<le> cogmap_adapt_seq m1 idx idx1 fr mx corrs ! idx1
              \<and> - mx \<le> cogmap_adapt_seq m1 idx idx1 fr mx (corrs @ [corr1]) ! idx1"
      if "\<forall>x \<in> set (corrs @ [corr1]). x \<le> 0" for corrs corr1
    proof -
      from that have c1: "corr1 \<le> 0" by simp
      from sb [of corrs] have le: "- mx \<le> cogmap_adapt_seq m1 idx idx1 fr mx corrs ! idx"
        "- mx \<le> cogmap_adapt_seq m1 idx idx1 fr mx corrs ! idx1" by auto
      from sb [of "corrs @ [corr1]"]
      have le1: "- mx \<le> cogmap_adapt_seq m1 idx idx1 fr mx (corrs @ [corr1]) ! idx"
        "- mx \<le> cogmap_adapt_seq m1 idx idx1 fr mx (corrs @ [corr1]) ! idx1" by auto
      from cogmap_adapt_down [OF mx sl [of corrs] f c1, where i = idx] le(1)
        cogmap_adapt_down [OF mx sl [of corrs] f c1, where i = idx1] le(2) le1
      show ?thesis by (simp add: cogmap_adapt_seq_snoc)
    qed
    from up down sup sdown show ?thesis by blast
  qed
  from bound len other distinct same mono show ?thesis by blast
qed

theorem update_cogmap_adaptation_witness:
  "mode_rank CTRL_MODE_VELOCITY_CONTROL \<le> mode_rank (control_mode (config_m example_controller))
   \<and> 0 \<le> cogmap_max_current (config_m example_controller)
   \<and> cogmap_index example_axis (config_m example_controller) = Some (1, 2, 1 / 2)
   \<and> 0 \<le> encoder_count_in_cpr_m example_axis
   \<and> encoder_count_in_cpr_m example_axis < encoder_cpr example_axis
   \<and> (\<exists>r. update example_constants example_axis example_controller 0 4 None = Some r
         \<and> ret r
         \<and> \<bar>cogmap (config_m (controller r)) ! 1\<bar> \<le> 1
         \<and> \<bar>cogmap (config_m (controller r)) ! 2\<bar> \<le> 1
         \<and> length (cogmap (config_m (controller r))) = 4
         \<and> cogmap (config_m (controller r)) ! 0 = 0
         \<and> cogmap (config_m (controller r)) ! 3 = 1 / 4
         \<and> cogmap (config_m (controller r)) ! 1 = 3 / 10
         \<and> cogmap (config_m (controller r)) ! 2 = 11 / 20
         \<and> cogmap (config_m (controller r)) ! 1
              \<le> cogmap_adapt_seq (cogmap (config_m (controller r))) 1 2 (1 / 2) 1 [1 / 10] ! 1
         \<and> cogmap_adapt_seq (cogmap (config_m (controller r))) 1 2 (1 / 2) 1 [1 / 10] ! 1 \<le> 1)"
proof -
  let ?k = example_constants and ?a = example_axis and ?c = example_controller
  have md: "mode_rank CTRL_MODE_VELOCITY_CONTROL \<le> mode_rank (control_mode (config_m ?c))"
    by (simp add: example_defs)
  have mpos: "0 \<le> cogmap_max_current (config_m ?c)" by (simp add: example_defs)
  have i: "cogmap_index ?a (config_m ?c) = Some (1, 2, 1 / 2)"
    using example_index by (simp add: example_controller_def)
  have cnt: "0 \<le> encoder_count_in_cpr_m ?a \<and> encoder_count_in_cpr_m ?a < encoder_cpr ?a"
    by (simp add: example_defs)
  obtain r where r: "update ?k ?a ?c 0 4 None = Some r" "ret r"
    using example_update_ok [of "effective_current_lim example_axis" None] by auto
  have v: "cogmap (config_m ?c) = [0, 1 / 4, 1 / 2, 1 / 4]" "cogmap_max_current (config_m ?c) = 1"
    "cogmap_integrator_gain (config_m ?c) * (vel_demand ?k ?a ?c 0 - 4) * current_meas_period ?k
       = 1 / 10"
    by (simp_all add: example_vel_demand) (simp_all add: example_defs)
  note t = update_cogmap_adaptation [OF r md mpos i refl refl refl refl, unfolded v]
  have 1: "\<bar>cogmap (config_m (controller r)) ! 1\<bar> \<le> 1
         \<and> \<bar>cogmap (config_m (controller r)) ! 2\<bar> \<le> 1
         \<and> length (cogmap (config_m (controller r))) = 4"
    using t [THEN conjunct1] t [THEN conjunct2, THEN conjunct1]
      t [THEN conjunct2, THEN conjunct2, THEN conjunct1]
    by simp
  note rest = t [THEN conjunct2, THEN conjunct2, THEN conjunct2]
  have 2: "cogmap (config_m (controller r)) ! 0 = 0
         \<and> cogmap (config_m (controller r)) ! 3 = 1 / 4"
    using rest [THEN conjunct1, rule_format, of 0] rest [THEN conjunct1, rule_format, of 3]
    by simp
  have 3: "cogmap (config_m (controller r)) ! 1 = 3 / 10
         \<and> cogmap (config_m (controller r)) ! 2 = 11 / 20"
    using rest [THEN conjunct2, THEN conjunct1] by (simp add: clamp_bidirf_def)
  note mono = rest [THEN conjunct2, THEN conjunct2, THEN conjunct2, THEN mp, OF cnt]
  from mono [THEN conjunct2, THEN conjunct2, THEN conjunct1, rule_format, of "[]" "1 / 10"]
  have 4: "cogmap (config_m (controller r)) ! 1
              \<le> cogmap_adapt_seq (cogmap (config_m (controller r))) 1 2 (1 / 2) 1 [1 / 10] ! 1
         \<and> cogmap_adapt_seq (cogmap (config_m (controller r))) 1 2 (1 / 2) 1 [1 / 10] ! 1 \<le> 1"
    by simp
  from r 1 2 3 4 have "\<exists>r. update example_constants example_axis example_controller 0 4 None = Some r
         \<and> ret r
         \<and> \<bar>cogmap (config_m (controller r)) ! 1\<bar> \<le> 1
         \<and> \<bar>cogmap (config_m (controller r)) ! 2\<bar> \<le> 1
         \<and> length (cogmap (config_m (controller r))) = 4
         \<and> cogmap (config_m (controller r)) ! 0 = 0
         \<and> cogmap (config_m (controller r)) ! 3 = 1 / 4
         \<and> cogmap (config_m (controller r)) ! 1 = 3 / 10
         \<and> cogmap (config_m (controller r)) ! 2 = 11 / 20
         \<and> cogmap (config_m (controller r)) ! 1
              \<le> cogmap_adapt_seq (cogmap (config_m (controller r))) 1 2 (1 / 2) 1 [1 / 10] ! 1
         \<and> cogmap_adapt_seq (cogmap (config_m (controller r))) 1 2 (1 / 2) 1 [1 / 10] ! 1 \<le> 1"
    by blast
  with md mpos i cnt show ?thesis by blast
qed

lemma fmodf_pos_range:
  assumes "0 < y"
  shows "0 \<le> fmodf_pos x y" and "fmodf_pos x y < y"
proof -
  have 1: "of_int \<lfloor>x / y\<rfloor> \<le> x / y" by (rule of_int_floor_le)
  have 2: "x / y < of_int \<lfloor>x / y\<rfloor> + 1" by linarith
  from 1 have "of_int \<lfloor>x / y\<rfloor> * y \<le> x" by (simp only: pos_le_divide_eq [OF assms])
  then show "0 \<le> fmodf_pos x y" by (simp add: fmodf_pos_def mult.commute)
  from 2 have "x < (of_int \<lfloor>x / y\<rfloor> + 1) * y" by (simp only: pos_divide_less_eq [OF assms])
  then show "fmodf_pos x y < y" by (simp add: fmodf_pos_def algebra_simps)
qed

lemma wrap_pm_range:
  assumes "0 < p"
  shows "- p \<le> wrap_pm x p" and "wrap_pm x p < p"
  using fmodf_pos_range [of "2 * p" "x + p"] assms by (simp_all add: wrap_pm_def)

lemma wrap_pm_congruent: "\<exists>n::int. wrap_pm x p = x + of_int n * (2 * p)"
proof
  show "wrap_pm x p = x + of_int (- \<lfloor>(x + p) / (2 * p)\<rfloor>) * (2 * p)"
    by (simp add: wrap_pm_def fmodf_pos_def)
qed

lemma fmodf_pos_congruent: "\<exists>n::int. fmodf_pos x y = x + of_int n * y"
proof
  show "fmodf_pos x y = x + of_int (- \<lfloor>x / y\<rfloor>) * y"
    by (simp add: fmodf_pos_def)
qed

lemma position_error_circular_parts:
  assumes s: "setpoints_in_cpr (config_m c)" and p: "0 < encoder_cpr ax"
  shows "pos_setpoint_m (fst (position_error ax c pe)) =
           fmodf_pos (pos_setpoint_m c) (real_of_int (encoder_cpr ax))"
    and "0 \<le> pos_setpoint_m (fst (position_error ax c pe))"
    and "pos_setpoint_m (fst (position_error ax c pe)) < real_of_int (encoder_cpr ax)"
    and "snd (position_error ax c pe) =
           wrap_pm (pos_setpoint_m (fst (position_error ax c pe)) - encoder_pos_cpr_m ax)
             (real_of_int (encoder_cpr ax) / 2)"
    and "- (real_of_int (encoder_cpr ax) / 2) \<le> snd (position_error ax c pe)"
    and "snd (position_error ax c pe) < real_of_int (encoder_cpr ax) / 2"
    and "\<exists>n::int. snd (position_error ax c pe) =
           pos_setpoint_m c - encoder_pos_cpr_m ax + of_int n * real_of_int (encoder_cpr ax)"
    and "position_error ax c pe' = position_error ax c pe"
proof -
  let ?cpr = "real_of_int (encoder_cpr ax)"
  have cp: "0 < ?cpr" "0 < ?cpr / 2" using p by simp_all
  show 1: "pos_setpoint_m (fst (position_error ax c pe)) = fmodf_pos (pos_setpoint_m c) ?cpr"
    using s by (simp add: position_error_def Let_def)
  show "0 \<le> pos_setpoint_m (fst (position_error ax c pe))"
    unfolding 1 by (rule fmodf_pos_range(1) [OF cp(1)])
  show "pos_setpoint_m (fst (position_error ax c pe)) < ?cpr"
    unfolding 1 by (rule fmodf_pos_range(2) [OF cp(1)])
  show 2: "snd (position_error ax c pe) =
      wrap_pm (pos_setpoint_m (fst (position_error ax c pe)) - encoder_pos_cpr_m ax) (?cpr / 2)"
    using s by (simp add: position_error_def Let_def)
  show "- (?cpr / 2) \<le> snd (position_error ax c pe)"
    unfolding 2 by (rule wrap_pm_range(1) [OF cp(2)])
  show "snd (position_error ax c pe) < ?cpr / 2"
    unfolding 2 by (rule wrap_pm_range(2) [OF cp(2)])
  show "\<exists>n::int. snd (position_error ax c pe) =
      pos_setpoint_m c - encoder_pos_cpr_m ax + of_int n * ?cpr"
  proof -
    obtain a :: int where a: "fmodf_pos (pos_setpoint_m c) ?cpr = pos_setpoint_m c + of_int a * ?cpr"
      using fmodf_pos_congruent by blast
    obtain b :: int where b: "snd (position_error ax c pe) =
        pos_setpoint_m (fst (position_error ax c pe)) - encoder_pos_cpr_m ax
          + of_int b * (2 * (?cpr / 2))"
      unfolding 2 using wrap_pm_congruent by blast
    have "snd (position_error ax c pe) =
        pos_setpoint_m c - encoder_pos_cpr_m ax + of_int (a + b) * ?cpr"
      unfolding b 1 a by (simp add: algebra_simps)
    then show ?thesis by blast
  qed
  show "position_error ax c pe' = position_error ax c pe"
    using s by (simp add: position_error_def Let_def)
qed

lemma setpoints_position_mode:
  assumes "mode_rank CTRL_MODE_POSITION_CONTROL \<le> mode_rank (control_mode (config_m c))"
  shows "setpoints k ax c pe =
           fst (position_error ax (velocity_ramp k (trajectory_control k ax c)) pe)"
proof -
  have "mode_rank CTRL_MODE_POSITION_CONTROL
      \<le> mode_rank (control_mode (config_m (velocity_ramp k (trajectory_control k ax c))))"
    using assms mode_after_position [of k ax c]
    by (simp add: velocity_ramp_config trajectory_control_config del: mode_rank.simps)
  then show ?thesis
    by (simp add: setpoints_def position_control_def Let_def split_beta del: mode_rank.simps)
qed

text \<open>
  C6. In the position loop (mode at least POSITION) with \<open>setpoints_in_cpr\<close> set and
  \<open>cpr > 0\<close>: the position setpoint is first normalised into \<open>[0, cpr)\<close>; the error is
  taken against the encoder's circular position \<open>pos_cpr\<close>, whatever the \<open>pos_estimate\<close>
  argument is, and wrapped into \<open>[-cpr/2, cpr/2)\<close>, differing from
  \<open>pos_setpoint - pos_cpr\<close> by a multiple of \<open>cpr\<close>; after a call of \<open>update\<close> the position
  setpoint lies in \<open>[0, cpr)\<close>. With \<open>cpr = 8192\<close>, \<open>pos_setpoint = 8100\<close> and
  \<open>pos_cpr = 50\<close> the error is \<open>-142\<close>. Without \<open>setpoints_in_cpr\<close> the error is
  \<open>pos_setpoint - pos_estimate\<close>, unwrapped, and the setpoint is left alone. The velocity
  demand before limiting is the velocity setpoint plus \<open>pos_gain\<close> times that error.
\<close>

theorem position_error_circular:
  "(setpoints_in_cpr (config_m c) \<and> 0 < encoder_cpr ax \<longrightarrow>
      pos_setpoint_m (fst (position_error ax c pe)) =
        fmodf_pos (pos_setpoint_m c) (real_of_int (encoder_cpr ax))
    \<and> 0 \<le> pos_setpoint_m (fst (position_error ax c pe))
    \<and> pos_setpoint_m (fst (position_error ax c pe)) < real_of_int (encoder_cpr ax)
    \<and> snd (position_error ax c pe) =
        wrap_pm (pos_setpoint_m (fst (position_error ax c pe)) - encoder_pos_cpr_m ax)
          (real_of_int (encoder_cpr ax) / 2)
    \<and> - (real_of_int (encoder_cpr ax) / 2) \<le> snd (position_error ax c pe)
    \<and> snd (position_error ax c pe) < real_of_int (encoder_cpr ax) / 2
    \<and> (\<exists>n::int. snd (position_error ax c pe) =
          pos_setpoint_m c - encoder_pos_cpr_m ax + of_int n * real_of_int (encoder_cpr ax))
    \<and> position_error ax c pe' = position_error ax c pe
    \<and> (\<forall>r. mode_rank CTRL_MODE_POSITION_CONTROL \<le> mode_rank (control_mode (config_m c))
            \<and> update k ax c pe ve out = Some r
          \<longrightarrow> 0 \<le> pos_setpoint_m (controller r)
            \<and> pos_setpoint_m (controller r) < real_of_int (encoder_cpr ax)))
   \<and> (setpoints_in_cpr (config_m c) \<and> encoder_cpr ax = 8192 \<and> pos_setpoint_m c = 8100
        \<and> encoder_pos_cpr_m ax = 50
      \<longrightarrow> snd (position_error ax c pe) = - 142)
   \<and> (\<not> setpoints_in_cpr (config_m c)
      \<longrightarrow> position_error ax c pe = (c, pos_setpoint_m c - pe))
   \<and> (mode_rank CTRL_MODE_POSITION_CONTROL \<le> mode_rank (control_mode (config_m c))
      \<longrightarrow> position_control ax c pe =
            (fst (position_error ax c pe),
             vel_setpoint_m c + pos_gain (config_m c) * snd (position_error ax c pe)))"
proof -
  have upd: "0 \<le> pos_setpoint_m (controller r)
      \<and> pos_setpoint_m (controller r) < real_of_int (encoder_cpr ax)"
    if s: "setpoints_in_cpr (config_m c)" and p: "0 < encoder_cpr ax"
      and m: "mode_rank CTRL_MODE_POSITION_CONTROL \<le> mode_rank (control_mode (config_m c))"
      and u: "update k ax c pe ve out = Some r" for r
  proof -
    let ?c2 = "velocity_ramp k (trajectory_control k ax c)"
    have s2: "setpoints_in_cpr (config_m ?c2)"
      using s by (simp add: velocity_ramp_config trajectory_control_config)
    have "pos_setpoint_m (controller r) = pos_setpoint_m (fst (position_error ax ?c2 pe))"
      using update_setpoint_fields(1) [OF u] by (simp add: setpoints_position_mode [OF m])
    then show ?thesis
      using position_error_circular_parts(2,3) [OF s2 p, of pe] by simp
  qed
  have ex: "snd (position_error ax c pe) = - 142"
    if "setpoints_in_cpr (config_m c) \<and> encoder_cpr ax = 8192 \<and> pos_setpoint_m c = 8100
        \<and> encoder_pos_cpr_m ax = 50"
    using that by (simp add: position_error_def wrap_pm_def fmodf_pos_def Let_def)
  have lin: "position_error ax c pe = (c, pos_setpoint_m c - pe)"
    if "\<not> setpoints_in_cpr (config_m c)"
    using that by (simp add: position_error_def)
  have pc: "position_control ax c pe =
            (fst (position_error ax c pe),
             vel_setpoint_m c + pos_gain (config_m c) * snd (position_error ax c pe))"
    if "mode_rank CTRL_MODE_POSITION_CONTROL \<le> mode_rank (control_mode (config_m c))"
    using that
    by (simp add: position_control_def position_error_def Let_def split_beta
        del: mode_rank.simps)
  have parts: "pos_setpoint_m (fst (position_error ax c pe)) =
        fmodf_pos (pos_setpoint_m c) (real_of_int (encoder_cpr ax))
    \<and> 0 \<le> pos_setpoint_m (fst (position_error ax c pe))
    \<and> pos_setpoint_m (fst (position_error ax c pe)) < real_of_int (encoder_cpr ax)
    \<and> snd (position_error ax c pe) =
        wrap_pm (pos_setpoint_m (fst (position_error ax c pe)) - encoder_pos_cpr_m ax)
          (real_of_int (encoder_cpr ax) / 2)
    \<and> - (real_of_int (encoder_cpr ax) / 2) \<le> snd (position_error ax c pe)
    \<and> snd (position_error ax c pe) < real_of_int (encoder_cpr ax) / 2
    \<and> (\<exists>n::int. snd (position_error ax c pe) =
          pos_setpoint_m c - encoder_pos_cpr_m ax + of_int n * real_of_int (encoder_cpr ax))
    \<and> position_error ax c pe' = position_error ax c pe"
    if h: "setpoints_in_cpr (config_m c) \<and> 0 < encoder_cpr ax"
  proof -
    note q = position_error_circular_parts [OF conjunct1 [OF h] conjunct2 [OF h]]
    show ?thesis by (intro conjI q)
  qed
  from parts upd ex lin pc show ?thesis by blast
qed

theorem position_error_circular_witness:
  "setpoints_in_cpr (config_m (example_trajectory\<lparr>pos_setpoint_m := 8100\<rparr>))
   \<and> 0 < encoder_cpr example_axis
   \<and> encoder_cpr example_axis = 8192
   \<and> pos_setpoint_m (example_trajectory\<lparr>pos_setpoint_m := 8100\<rparr>) = 8100
   \<and> encoder_pos_cpr_m example_axis = 50
   \<and> snd (position_error example_axis (example_trajectory\<lparr>pos_setpoint_m := 8100\<rparr>) 0) = - 142
   \<and> pos_setpoint_m (fst (position_error example_axis
         (example_trajectory\<lparr>pos_setpoint_m := 8100\<rparr>) 0)) = 8100
   \<and> \<not> setpoints_in_cpr (config_m example_controller)
   \<and> position_error example_axis example_controller 100 = (example_controller, 8000)"
proof -
  let ?c = "example_trajectory\<lparr>pos_setpoint_m := 8100\<rparr>" and ?a = example_axis
  have h: "setpoints_in_cpr (config_m ?c) \<and> encoder_cpr ?a = 8192 \<and> pos_setpoint_m ?c = 8100
        \<and> encoder_pos_cpr_m ?a = 50"
    by (simp add: example_defs)
  have p: "0 < encoder_cpr ?a" by (simp add: example_defs)
  have n: "\<not> setpoints_in_cpr (config_m example_controller)" by (simp add: example_defs)
  have v: "pos_setpoint_m example_controller - 100 = 8000"
    "fmodf_pos (pos_setpoint_m ?c) (real_of_int (encoder_cpr ?a)) = 8100"
    by (simp_all add: example_defs fmodf_pos_def)
  note t1 = position_error_circular [of ?c ?a 0 0 example_constants 0 None]
  note t2 = position_error_circular [of example_controller ?a 100 0 example_constants 0 None]
  from t1 [THEN conjunct2, THEN conjunct1] h
  have 1: "snd (position_error ?a ?c 0) = - 142" by blast
  from t1 [THEN conjunct1] h p
  have 2: "pos_setpoint_m (fst (position_error ?a ?c 0)) = 8100" unfolding v by blast
  from t2 [THEN conjunct2, THEN conjunct2, THEN conjunct1] n
  have 3: "position_error ?a example_controller 100 = (example_controller, 8000)"
    unfolding v by blast
  from h p n 1 2 3 show ?thesis by blast
qed

end
